theory Spec2Isabelle
  imports Complex_Main
begin

section \<open>Common notions\<close>

text \<open>
  The C type \<open>double\<close> and MATLAB's numbers are modelled by \<^typ>\<open>real\<close>: the
  development is about the formulas, the control flow and the indexing of the
  programs, in exact arithmetic; rounding is outside the model. The one value of the
  programs that need not be a finite number, the quotient \<open>T / Dt\<close> of the
  gateway, is written out where it is computed.
\<close>

text \<open>
  A counted loop whose body does not assign its counter: C's
  \<open>for (j = a; j < b; j++) body\<close> is \<open>for_loop [a..<b] body\<close>, MATLAB's
  \<open>for i = a:b\<close> is \<open>for_loop [a..<Suc b] body\<close>. The first failing iteration
  ends the loop.
\<close>

primrec for_loop :: "'i list \<Rightarrow> ('i \<Rightarrow> 's \<Rightarrow> 'e + 's) \<Rightarrow> 's \<Rightarrow> 'e + 's" where
  "for_loop [] body st = Inr st"
| "for_loop (i # is) body st =
     (case body i st of Inl e \<Rightarrow> Inl e | Inr st' \<Rightarrow> for_loop is body st')"

section \<open>The compiled kernel: stocksim.c\<close>

subsection \<open>Interfaces the file is compiled against\<close>

text \<open>
  \<open>numerical.h\<close> declares the six step functions
  \<open>double f(const double, const double, const double, const double, const double)\<close>;
  their bodies are not in the sources, so the kernel takes them as a table.
\<close>

type_synonym step_fun = "real \<Rightarrow> real \<Rightarrow> real \<Rightarrow> real \<Rightarrow> real \<Rightarrow> real"

record numerical =
  euler_stock :: step_fun
  euler_vol :: step_fun
  milstein_stock :: step_fun
  milstein_vol :: step_fun
  rk_stock :: step_fun
  rk_vol :: step_fun

text \<open>
  The GNU Scientific Library: a generator state of type \<open>'g\<close>;
  \<open>gsl_rng_set\<close> reseeds a generator (the seed is the \<open>double\<close> the caller
  passes, converted by the call), \<open>gsl_ran_gaussian r 1\<close> returns a draw and the
  advanced generator.
\<close>

record 'g gsl =
  gsl_rng_set :: "'g \<Rightarrow> real \<Rightarrow> 'g"
  gsl_ran_gaussian :: "'g \<Rightarrow> real \<times> 'g"

text \<open>
  What ends a run without a result: \<open>mexErrMsgTxt\<close> with its message, an error
  raised by MATLAB itself, or an operation whose behaviour C leaves undefined (a
  store outside its buffer).
\<close>

datatype error = MexErr string | MatlabErr string | Undefined string

datatype num_method = EULER | MILSTEIN | RK | NO_METHOD

subsection \<open>The worker routine \<open>stockPath\<close>\<close>

record 'g path_state =
  rng_stock :: 'g
  rng_vol :: 'g
  index :: nat
  stock_paths :: "real list"
  vol_paths :: "real list"
  xi_paths :: "real list"

text \<open>Lines 92 to 102: the update of \<open>xi\<close> from the values at \<open>index - 1\<close>.\<close>

definition xi_next :: "real \<Rightarrow> real \<Rightarrow> real \<Rightarrow> real \<Rightarrow> real" where
  "xi_next alpha Dt vol_prev xi_prev =
     (let k_1 = 1 / alpha * (vol_prev - xi_prev);
          k_2 = 1 / alpha * (vol_prev + 0.5 * Dt * k_1 - xi_prev);
          k_3 = 1 / alpha * (vol_prev + 0.5 * Dt * k_2 - xi_prev);
          k_4 = 1 / alpha * (vol_prev + Dt * k_3 - xi_prev)
      in xi_prev + Dt / 6 * (k_1 + 2 * k_2 + 2 * k_3 + k_4))"

text \<open>Lines 72 to 75: the initial values of one path.\<close>

definition path_init :: "real \<Rightarrow> real \<Rightarrow> real \<Rightarrow> 'g path_state \<Rightarrow> error + 'g path_state" where
  "path_init S_0 sigma_0 xi_0 st =
     (let i = index st in
      if i < length (stock_paths st) \<and> i < length (vol_paths st) \<and> i < length (xi_paths st)
      then Inr (st\<lparr>stock_paths := (stock_paths st)[i := S_0],
                  vol_paths := (vol_paths st)[i := sigma_0],
                  xi_paths := (xi_paths st)[i := xi_0],
                  index := i + 1\<rparr>)
      else Inl (Undefined ''store outside the buffer''))"

text \<open>Lines 79 to 104: one step of one path.\<close>

definition path_step ::
  "'g gsl \<Rightarrow> step_fun \<Rightarrow> step_fun \<Rightarrow> real \<Rightarrow> real \<Rightarrow> real \<Rightarrow> real \<Rightarrow>
   'g path_state \<Rightarrow> error + 'g path_state" where
  "path_step G num_method_stock num_method_vol Dt mu p alpha st =
     (let (g_stock, rs) = gsl_ran_gaussian G (rng_stock st);
          phi_stock = g_stock * sqrt Dt;
          (g_vol, rv) = gsl_ran_gaussian G (rng_vol st);
          phi_vol = g_vol * sqrt Dt;
          i = index st
      in if 0 < i \<and> i < length (stock_paths st) \<and> i < length (vol_paths st)
            \<and> i < length (xi_paths st)
         then let stock_prev = stock_paths st ! (i - 1);
                  vol_prev = vol_paths st ! (i - 1);
                  xi_prev = xi_paths st ! (i - 1)
              in Inr (st\<lparr>rng_stock := rs, rng_vol := rv,
                    stock_paths := (stock_paths st)[i := num_method_stock stock_prev vol_prev mu Dt phi_stock],
                    vol_paths := (vol_paths st)[i := num_method_vol vol_prev xi_prev p Dt phi_vol],
                    xi_paths := (xi_paths st)[i := xi_next alpha Dt vol_prev xi_prev],
                    index := i + 1\<rparr>)
         else Inl (Undefined ''store outside the buffer''))"

text \<open>
  Lines 55 to 66: the two functions of the chosen method; there are none for
  \<open>NO_METHOD\<close>, where the routine ends in \<open>mexErrMsgTxt\<close>.
\<close>

definition select_method :: "numerical \<Rightarrow> num_method \<Rightarrow> (step_fun \<times> step_fun) option" where
  "select_method L num_method =
     (case num_method of
        EULER \<Rightarrow> Some (euler_stock L, euler_vol L)
      | MILSTEIN \<Rightarrow> Some (milstein_stock L, milstein_vol L)
      | RK \<Rightarrow> Some (rk_stock L, rk_vol L)
      | NO_METHOD \<Rightarrow> None)"

text \<open>Lines 70 to 106: one sample, and all of them.\<close>

definition sample_path ::
  "'g gsl \<Rightarrow> step_fun \<Rightarrow> step_fun \<Rightarrow> real \<Rightarrow> real \<Rightarrow> real \<Rightarrow> real \<Rightarrow> real \<Rightarrow> real \<Rightarrow> real \<Rightarrow>
   nat \<Rightarrow> 'g path_state \<Rightarrow> error + 'g path_state" where
  "sample_path G num_method_stock num_method_vol Dt sigma_0 S_0 xi_0 mu p alpha N st =
     (case path_init S_0 sigma_0 xi_0 st of
        Inl e \<Rightarrow> Inl e
      | Inr st' \<Rightarrow>
          for_loop [1..<N]
            (\<lambda>j. path_step G num_method_stock num_method_vol Dt mu p alpha) st')"

definition stockPath ::
  "'g gsl \<Rightarrow> numerical \<Rightarrow> 'g \<Rightarrow> 'g \<Rightarrow> nat \<Rightarrow> real \<Rightarrow> real \<Rightarrow> real \<Rightarrow> real \<Rightarrow> real \<Rightarrow> real \<Rightarrow> real \<Rightarrow>
   nat \<Rightarrow> num_method \<Rightarrow> real list \<Rightarrow> real list \<Rightarrow> real list \<Rightarrow> error + 'g path_state" where
  "stockPath G L rng_stock0 rng_vol0 samples Dt sigma_0 S_0 xi_0 mu p alpha N num_method
     stock_paths0 vol_paths0 xi_paths0 =
     (case select_method L num_method of
        None \<Rightarrow> Inl (MexErr ''Only 'euler', 'milstein' and 'rk' are implemented'')
      | Some (num_method_stock, num_method_vol) \<Rightarrow>
          for_loop [0..<samples]
            (\<lambda>i. sample_path G num_method_stock num_method_vol Dt sigma_0 S_0 xi_0 mu p alpha N)
            \<lparr>rng_stock = rng_stock0, rng_vol = rng_vol0, index = 0,
             stock_paths = stock_paths0, vol_paths = vol_paths0, xi_paths = xi_paths0\<rparr>)"

subsection \<open>The gateway \<open>mexFunction\<close>\<close>

text \<open>
  An argument as the gateway reads it: a double array (\<open>mxGetPr\<close> is
  dereferenced once, so only the first element counts), a char array, or an array of
  another class. An output is a matrix in MATLAB's column-major layout: element
  \<open>(r, c)\<close> of an \<open>m_rows\<close> by \<open>m_cols\<close> matrix is \<open>m_data ! (c * m_rows + r)\<close>.
\<close>

datatype mxArray = MxDouble real | MxChar string | MxOther

record matrix =
  m_rows :: nat
  m_cols :: nat
  m_data :: "real list"

definition mxIsDouble :: "mxArray \<Rightarrow> bool" where
  "mxIsDouble a = (case a of MxDouble x \<Rightarrow> True | _ \<Rightarrow> False)"

definition mxIsChar :: "mxArray \<Rightarrow> bool" where
  "mxIsChar a = (case a of MxChar s \<Rightarrow> True | _ \<Rightarrow> False)"

definition mxGetPr :: "mxArray \<Rightarrow> real" where
  "mxGetPr a = (case a of MxDouble x \<Rightarrow> x | _ \<Rightarrow> 0)"

definition mxArrayToString :: "mxArray \<Rightarrow> string" where
  "mxArrayToString a = (case a of MxChar s \<Rightarrow> s | _ \<Rightarrow> [])"

definition mxCreateDoubleMatrix :: "nat \<Rightarrow> nat \<Rightarrow> matrix" where
  "mxCreateDoubleMatrix m n = \<lparr>m_rows = m, m_cols = n, m_data = replicate (m * n) 0\<rparr>"

definition elem :: "matrix \<Rightarrow> nat \<Rightarrow> nat \<Rightarrow> real" where
  "elem M r c = m_data M ! (c * m_rows M + r)"

text \<open>
  \<open>strncmp(s, lit, strlen(lit)) == 0\<close>: the first \<open>strlen(lit)\<close> characters of
  \<open>s\<close> are those of \<open>lit\<close>.
\<close>

definition strncmp_eq :: "string \<Rightarrow> string \<Rightarrow> bool" where
  "strncmp_eq s lit = (take (length lit) s = lit)"

text \<open>
  Lines 158 to 165: the method a name stands for; \<open>NO_METHOD\<close> is the value
  \<open>num_method\<close> was initialised with, and the gateway ends in \<open>mexErrMsgTxt\<close>
  when it is left.
\<close>

definition method_of :: "string \<Rightarrow> num_method" where
  "method_of name =
     (if strncmp_eq name ''euler'' then EULER
      else if strncmp_eq name ''milstein'' then MILSTEIN
      else if strncmp_eq name ''rk'' then RK
      else NO_METHOD)"

text \<open>
  \<open>lround\<close> rounds to the nearest integer, halfway cases away from zero; the
  result is a \<open>long\<close> (64 bits), and is unspecified outside its range.
\<close>

definition lround :: "real \<Rightarrow> int option" where
  "lround x =
     (let r = (if 0 \<le> x then \<lfloor>x + 1 / 2\<rfloor> else - \<lfloor>- x + 1 / 2\<rfloor>)
      in if - (2 ^ 63) \<le> r \<and> r < 2 ^ 63 then Some r else None)"

text \<open>
  The quotient of two \<open>double\<close>s that are finite numbers: with the divisor 0 it
  is an infinity or NaN, no number.
\<close>

definition double_div :: "real \<Rightarrow> real \<Rightarrow> real option" where
  "double_div x y = (if y = 0 then None else Some (x / y))"

text \<open>
  \<open>lround\<close> as the gateway calls it. Where C leaves the result unspecified (an
  argument that is not finite, a rounded value that is no \<open>long\<close>) the call still
  returns a \<open>long\<close>: the answer \<open>U\<close> of the C library in use, a function of the
  argument.
\<close>

definition lround_of :: "(real option \<Rightarrow> int) \<Rightarrow> real option \<Rightarrow> int" where
  "lround_of U x =
     (case x of
        None \<Rightarrow> U None
      | Some y \<Rightarrow> (case lround y of Some z \<Rightarrow> z | None \<Rightarrow> U (Some y)))"

text \<open>The conversion of a \<open>long\<close> to \<open>mwSize\<close> (\<open>size_t\<close>, 64 bits).\<close>

definition mwSize_of_long :: "int \<Rightarrow> nat" where
  "mwSize_of_long z = nat (z mod 2 ^ 64)"

text \<open>The calls into MATLAB and the GSL that the gateway has made, in order.\<close>

datatype event =
    CreateDoubleMatrix nat nat
  | RngAlloc
  | RngSet real
  | RngFree

text \<open>
  The gateway: \<open>U\<close> is the C library's answer where \<open>lround\<close> is unspecified,
  \<open>fresh_stock\<close> and \<open>fresh_vol\<close> are the two generators as
  \<open>gsl_rng_alloc\<close> hands them out. The result is the calls made and either the
  error that ended the run or \<open>(STOCKPATHS, VOLPATHS, XIPATHS)\<close>. Memory is taken to
  suffice: \<open>mxCreateDoubleMatrix\<close> returns a matrix whatever the sizes.
\<close>

definition mexFunction ::
  "(real option \<Rightarrow> int) \<Rightarrow> 'g gsl \<Rightarrow> numerical \<Rightarrow> 'g \<Rightarrow> 'g \<Rightarrow> int \<Rightarrow> mxArray list \<Rightarrow>
   event list \<times> (error + matrix \<times> matrix \<times> matrix)" where
  "mexFunction U G L fresh_stock fresh_vol nlhs prhs =
    (let nrhs = length prhs;
         RANDSTATE_IN = prhs ! 0; SAMPLES_IN = prhs ! 1; DT_IN = prhs ! 2;
         SIGMA0_IN = prhs ! 3; S_0_IN = prhs ! 4; XI0_IN = prhs ! 5; MU_IN = prhs ! 6;
         P_IN = prhs ! 7; ALPHA_IN = prhs ! 8; T_IN = prhs ! 9; NUMMETHOD_IN = prhs ! 10
     in
     if nrhs \<noteq> 11 then ([], Inl (MexErr ''Eleven input arguments required.''))
     else if nlhs \<noteq> 3 then ([], Inl (MexErr ''Three output arguments required.''))
     else if \<not> mxIsDouble RANDSTATE_IN \<or> \<not> mxIsDouble SAMPLES_IN \<or>
             \<not> mxIsDouble DT_IN \<or> \<not> mxIsDouble SIGMA0_IN \<or>
             \<not> mxIsDouble S_0_IN \<or> \<not> mxIsDouble XI0_IN \<or>
             \<not> mxIsDouble MU_IN \<or> \<not> mxIsDouble P_IN \<or>
             \<not> mxIsDouble ALPHA_IN \<or> \<not> mxIsDouble T_IN
     then ([], Inl (MexErr ''All parameters have to be numbers except num_method.''))
     else if \<not> (mxGetPr ALPHA_IN > 0)
     then ([], Inl (MexErr ''alpha must be larger than zero''))
     else if \<not> mxIsChar NUMMETHOD_IN
     then ([], Inl (MexErr ''num_method must be a char''))
     else
       let N = mwSize_of_long (lround_of U (double_div (mxGetPr T_IN) (mxGetPr DT_IN)));
           samples = mwSize_of_long (lround_of U (Some (mxGetPr SAMPLES_IN)));
           STOCKPATHS = mxCreateDoubleMatrix N samples;
           VOLPATHS = mxCreateDoubleMatrix N samples;
           XIPATHS = mxCreateDoubleMatrix N samples;
           created = [CreateDoubleMatrix N samples, CreateDoubleMatrix N samples,
                      CreateDoubleMatrix N samples];
           num_method = method_of (mxArrayToString NUMMETHOD_IN)
       in
       if num_method = NO_METHOD
       then (created, Inl (MexErr ''Only 'euler', 'milstein' and 'rk' are implemented''))
       else
         let rng_stock0 = gsl_rng_set G fresh_stock (mxGetPr RANDSTATE_IN);
             rng_vol0 = gsl_rng_set G fresh_vol (mxGetPr RANDSTATE_IN + 1);
             seeded = created @ [RngAlloc, RngAlloc, RngSet (mxGetPr RANDSTATE_IN),
                                 RngSet (mxGetPr RANDSTATE_IN + 1)]
         in
         case stockPath G L rng_stock0 rng_vol0 samples (mxGetPr DT_IN)
                (mxGetPr SIGMA0_IN) (mxGetPr S_0_IN) (mxGetPr XI0_IN) (mxGetPr MU_IN)
                (mxGetPr P_IN) (mxGetPr ALPHA_IN) N num_method
                (m_data STOCKPATHS) (m_data VOLPATHS) (m_data XIPATHS) of
           Inl e \<Rightarrow> (seeded, Inl e)
         | Inr st \<Rightarrow>
             (seeded @ [RngFree, RngFree],
              Inr (STOCKPATHS\<lparr>m_data := stock_paths st\<rparr>,
                   VOLPATHS\<lparr>m_data := vol_paths st\<rparr>,
                   XIPATHS\<lparr>m_data := xi_paths st\<rparr>)))"

text \<open>
  The points of a run of \<open>stockPath\<close>: the state after the first \<open>i\<close> samples
  and, when \<open>0 < j\<close>, the first \<open>j\<close> entries of the next sample (the body of the
  inner loop does not read \<open>N\<close>, so a sample cut after \<open>j\<close> entries is
  \<open>sample_path\<close> with \<open>j\<close> for \<open>N\<close>).
\<close>

definition stockPath_upto ::
  "nat \<Rightarrow> nat \<Rightarrow> 'g gsl \<Rightarrow> numerical \<Rightarrow> 'g \<Rightarrow> 'g \<Rightarrow> real \<Rightarrow> real \<Rightarrow> real \<Rightarrow> real \<Rightarrow> real \<Rightarrow> real \<Rightarrow> real \<Rightarrow>
   nat \<Rightarrow> num_method \<Rightarrow> real list \<Rightarrow> real list \<Rightarrow> real list \<Rightarrow> error + 'g path_state" where
  "stockPath_upto i j G L rng_stock0 rng_vol0 Dt sigma_0 S_0 xi_0 mu p alpha N num_method
     stock_paths0 vol_paths0 xi_paths0 =
     (case stockPath G L rng_stock0 rng_vol0 i Dt sigma_0 S_0 xi_0 mu p alpha N num_method
             stock_paths0 vol_paths0 xi_paths0 of
        Inl e \<Rightarrow> Inl e
      | Inr st \<Rightarrow>
          if j = 0 then Inr st
          else (case select_method L num_method of
                  None \<Rightarrow> Inr st
                | Some (num_method_stock, num_method_vol) \<Rightarrow>
                    sample_path G num_method_stock num_method_vol Dt sigma_0 S_0 xi_0 mu p alpha
                      j st))"

section \<open>The MATLAB reference implementation: NumWrapper.m\<close>

text \<open>
  MATLAB's generator behind \<open>randn\<close>: \<open>randn('state', s)\<close> sets its state,
  one draw returns a number and the advanced state. A matrix is stored column by
  column, as in \<^typ>\<open>matrix\<close>; indices count from 1.
\<close>

record 'g matlab =
  randn_set_state :: "real \<Rightarrow> 'g"
  randn1 :: "'g \<Rightarrow> real \<times> 'g"

primrec randn_draws :: "'g matlab \<Rightarrow> nat \<Rightarrow> 'g \<Rightarrow> real list \<times> 'g" where
  "randn_draws M 0 g = ([], g)"
| "randn_draws M (Suc k) g =
     (let (x, g1) = randn1 M g; (xs, g2) = randn_draws M k g1 in (x # xs, g2))"

text \<open>
  A size argument of \<open>zeros\<close>: an integer, a negative one counting as 0. A number
  that is not an integer is refused, as current releases of MATLAB do (older ones
  warn and drop the fraction).
\<close>

definition size_arg :: "real \<Rightarrow> error + nat" where
  "size_arg x =
     (if real_of_int \<lfloor>x\<rfloor> = x then Inr (nat \<lfloor>x\<rfloor>)
      else Inl (MatlabErr ''Size inputs must be integers.''))"

definition zeros :: "nat \<Rightarrow> nat \<Rightarrow> matrix" where
  "zeros m n = \<lparr>m_rows = m, m_cols = n, m_data = replicate (m * n) 0\<rparr>"

text \<open>
  \<open>A(:, 1) = v\<close>: the first column is filled with \<open>v\<close>; a matrix without
  columns grows to one column.
\<close>

definition assign_col1 :: "matrix \<Rightarrow> real \<Rightarrow> matrix" where
  "assign_col1 A v =
     (if 0 < m_cols A
      then A\<lparr>m_data := replicate (m_rows A) v @ drop (m_rows A) (m_data A)\<rparr>
      else if 0 < m_rows A
      then \<lparr>m_rows = m_rows A, m_cols = 1, m_data = replicate (m_rows A) v\<rparr>
      else \<lparr>m_rows = 1, m_cols = 1, m_data = [v]\<rparr>)"

definition mget :: "matrix \<Rightarrow> nat \<Rightarrow> nat \<Rightarrow> real" where
  "mget A i j = m_data A ! ((j - 1) * m_rows A + (i - 1))"

definition mset :: "matrix \<Rightarrow> nat \<Rightarrow> nat \<Rightarrow> real \<Rightarrow> matrix" where
  "mset A i j v = A\<lparr>m_data := (m_data A)[(j - 1) * m_rows A + (i - 1) := v]\<rparr>"

record 'g wrapper_state =
  w_rng :: 'g
  stockPaths :: matrix
  volPaths :: matrix
  xiPaths :: matrix

text \<open>
  Lines 56 to 74, the body of \<open>for j = 2 : N\<close>. The two function handles exist
  only when one of the three names matched; \<open>phiStock\<close> and \<open>phiVol\<close> are the
  matrices of \<open>randn(N - 1)\<close> in storage order, read by one index.
\<close>

definition wrapper_step ::
  "(step_fun \<times> step_fun) option \<Rightarrow> real \<Rightarrow> real \<Rightarrow> real \<Rightarrow> real \<Rightarrow> real list \<Rightarrow> real list \<Rightarrow>
   nat \<Rightarrow> nat \<Rightarrow> 'g wrapper_state \<Rightarrow> error + 'g wrapper_state" where
  "wrapper_step handles Dt mu p alpha phiStock phiVol i j st =
     (case handles of
        None \<Rightarrow> Inl (MatlabErr ''Undefined function or variable 'numMethodVol'.'')
      | Some (numMethodStock, numMethodVol) \<Rightarrow>
          (let volt = mget (volPaths st) i (j - 1);
               xit = mget (xiPaths st) i (j - 1);
               volPaths1 = mset (volPaths st) i j
                 (numMethodVol (mget (volPaths st) i (j - 1)) (mget (xiPaths st) i (j - 1))
                    p Dt (phiVol ! (j - 1 - 1)));
               k1 = 1 / alpha * (volt - xit);
               k2 = 1 / alpha * (volt + Dt / 2 * k1 - xit);
               k3 = 1 / alpha * (volt + Dt / 2 * k2 - xit);
               k4 = 1 / alpha * (volt + Dt * k3 - xit);
               xiPaths1 = mset (xiPaths st) i j (xit + Dt / 6 * (k1 + 2 * k2 + 2 * k3 + k4));
               stockPaths1 = mset (stockPaths st) i j
                 (numMethodStock (mget (stockPaths st) i (j - 1)) (mget volPaths1 i (j - 1))
                    mu Dt (phiStock ! (j - 1 - 1)))
           in Inr (st\<lparr>volPaths := volPaths1, xiPaths := xiPaths1, stockPaths := stockPaths1\<rparr>)))"

text \<open>Lines 46 to 75, the body of \<open>for i = 1 : samples\<close>, for \<open>N\<close> columns.\<close>

definition wrapper_sample ::
  "'g matlab \<Rightarrow> (step_fun \<times> step_fun) option \<Rightarrow> real \<Rightarrow> real \<Rightarrow> real \<Rightarrow> real \<Rightarrow> nat \<Rightarrow>
   nat \<Rightarrow> 'g wrapper_state \<Rightarrow> error + 'g wrapper_state" where
  "wrapper_sample M handles Dt mu p alpha N i st =
     (let (draws_stock, g1) = randn_draws M ((N - 1) * (N - 1)) (w_rng st);
          (draws_vol, g2) = randn_draws M ((N - 1) * (N - 1)) g1;
          phiStock = map (\<lambda>x. x * sqrt Dt) draws_stock;
          phiVol = map (\<lambda>x. x * sqrt Dt) draws_vol
      in for_loop [2..<Suc N] (wrapper_step handles Dt mu p alpha phiStock phiVol i)
           (st\<lparr>w_rng := g2\<rparr>))"

text \<open>Line 9: the number of steps, as the function computes it.\<close>

definition NumWrapper_N :: "real \<Rightarrow> real \<Rightarrow> real" where
  "NumWrapper_N T Dt = T / Dt"

text \<open>
  The function, up to the three path matrices. The averages of lines 78 to 80 and the
  three unused \<open>AV\<close> matrices are left out.
\<close>

definition NumWrapper ::
  "'g matlab \<Rightarrow> numerical \<Rightarrow> real \<Rightarrow> real \<Rightarrow> real \<Rightarrow> real \<Rightarrow> real \<Rightarrow> real \<Rightarrow> real \<Rightarrow> real \<Rightarrow> real \<Rightarrow> real \<Rightarrow>
   string \<Rightarrow> error + 'g wrapper_state" where
  "NumWrapper M L randstate samples Dt sigma0 S0 xi0 mu p alpha T numMethod =
     (let g0 = randn_set_state M randstate;
          N = NumWrapper_N T Dt;
          handles =
            (if numMethod = ''Euler'' then Some (euler_stock L, euler_vol L)
             else if numMethod = ''Milstein'' then Some (milstein_stock L, milstein_vol L)
             else if numMethod = ''RK'' then Some (rk_stock L, rk_vol L)
             else None)
      in if Dt = 0 then Inl (MatlabErr ''NaN and Inf not allowed.'')
         else case (size_arg samples, size_arg N) of
           (Inr m, Inr n) \<Rightarrow>
             for_loop [1..<Suc m] (wrapper_sample M handles Dt mu p alpha n)
               \<lparr>w_rng = g0,
                stockPaths = assign_col1 (zeros m n) S0,
                volPaths = assign_col1 (zeros m n) sigma0,
                xiPaths = assign_col1 (zeros m n) xi0\<rparr>
         | _ \<Rightarrow> Inl (MatlabErr ''Size inputs must be integers.''))"

section \<open>The convergence script: euler_weak.m\<close>

text \<open>
  Column vectors indexed from 1. Reading outside a vector is an error of MATLAB's;
  a store past the end would make the vector grow.
\<close>

definition in_range :: "real list \<Rightarrow> nat \<Rightarrow> bool" where
  "in_range v i = (1 \<le> i \<and> i \<le> length v)"

definition vget :: "real list \<Rightarrow> nat \<Rightarrow> real" where
  "vget v i = v ! (i - 1)"

definition vset :: "real list \<Rightarrow> nat \<Rightarrow> real \<Rightarrow> real list" where
  "vset v i x =
     (if i \<le> length v then v[i - 1 := x]
      else v @ replicate (i - 1 - length v) 0 @ [x])"

record 'g ew_state =
  rng :: 'g
  S :: "real list"
  sig :: "real list"
  xi :: "real list"
  mean :: "real list"
  meanew32000 :: real

text \<open>Lines 29 to 36, the body of the reference loop \<open>for i = 2:32000\<close>.\<close>

definition fine_step ::
  "real \<Rightarrow> real \<Rightarrow> real \<Rightarrow> real \<Rightarrow> real list \<Rightarrow> real list \<Rightarrow> nat \<Rightarrow> 'g ew_state \<Rightarrow> error + 'g ew_state" where
  "fine_step mu p alfa dtex r r1 i st =
     (if in_range r i \<and> in_range r1 i \<and> in_range (S st) (i - 1)
         \<and> in_range (sig st) (i - 1) \<and> in_range (xi st) (i - 1)
      then
        let deltaw = sqrt dtex * vget r i;
            deltaw1 = sqrt dtex * vget r1 i;
            S1 = vset (S st) i
                  (vget (S st) (i - 1) + mu * vget (S st) (i - 1) * dtex
                   + vget (sig st) (i - 1) * vget (S st) (i - 1) * deltaw
                   + 0.5 * vget (sig st) (i - 1) * vget (sig st) (i - 1) * vget (S st) (i - 1)
                     * (deltaw * deltaw - dtex));
            sig1 = vset (sig st) i
                  (vget (sig st) (i - 1) - (vget (sig st) (i - 1) - vget (xi st) (i - 1)) * dtex
                   + p * vget (sig st) (i - 1) * deltaw1
                   + 0.5 * p * p * vget (sig st) (i - 1) * (deltaw1 * deltaw1 - dtex));
            xi1 = vset (xi st) i
                  (vget (xi st) (i - 1)
                   + (1.0 / alfa) * (vget sig1 (i - 1) - vget (xi st) (i - 1)) * dtex)
        in Inr (st\<lparr>S := S1, sig := sig1, xi := xi1\<rparr>)
      else Inl (MatlabErr ''Index exceeds matrix dimensions.''))"

text \<open>
  The inner loop \<open>for z = 1:k\<close> of a coarse block (lines 47 to 52 for \<open>k = 32\<close>):
  \<open>tmp\<close> after it.
\<close>

definition sum_draws :: "real list \<Rightarrow> nat \<Rightarrow> nat \<Rightarrow> real" where
  "sum_draws r k i = foldl (\<lambda>tmp z. tmp + vget r (k * i - (k - z))) 0.0 [1..<Suc k]"

definition draws_in_range :: "real list \<Rightarrow> nat \<Rightarrow> nat \<Rightarrow> bool" where
  "draws_in_range r k i = list_all (\<lambda>z. in_range r (k * i - (k - z))) [1..<Suc k]"

text \<open>
  The body of a coarse loop (lines 47 to 58 for \<open>k = 32\<close>; the other three blocks
  differ in \<open>k\<close>, the bound and \<open>dt\<close> only).
\<close>

definition coarse_step ::
  "real \<Rightarrow> real \<Rightarrow> real \<Rightarrow> real \<Rightarrow> real \<Rightarrow> nat \<Rightarrow> real list \<Rightarrow> real list \<Rightarrow> nat \<Rightarrow>
   'g ew_state \<Rightarrow> error + 'g ew_state" where
  "coarse_step mu p alfa dtex dt k r r1 i st =
     (if draws_in_range r k i \<and> draws_in_range r1 k i \<and> in_range (S st) (i - 1)
         \<and> in_range (sig st) (i - 1) \<and> in_range (xi st) (i - 1)
      then
        let tmp = sum_draws r k i;
            tmp1 = sum_draws r1 k i;
            deltaw = sqrt dtex * tmp;
            deltaw1 = sqrt dtex * tmp1;
            S1 = vset (S st) i
                  (vget (S st) (i - 1) + mu * vget (S st) (i - 1) * dt
                   + vget (sig st) (i - 1) * vget (S st) (i - 1) * deltaw);
            sig1 = vset (sig st) i
                  (vget (sig st) (i - 1) - (vget (sig st) (i - 1) - vget (xi st) (i - 1)) * dt
                   + p * vget (sig st) (i - 1) * deltaw1);
            xi1 = vset (xi st) i
                  (vget (xi st) (i - 1)
                   + (1.0 / alfa) * (vget sig1 (i - 1) - vget (xi st) (i - 1)) * dt)
        in Inr (st\<lparr>S := S1, sig := sig1, xi := xi1\<rparr>)
      else Inl (MatlabErr ''Index exceeds matrix dimensions.''))"






section \<open>The specification's formulas\<close>

text \<open>
  Section 4.3 of the specification, \<open>rk4_step(vol_prev, \<xi>_prev, Dt, \<alpha>)\<close>, in its
  words.
\<close>

definition rk4_step :: "real \<Rightarrow> real \<Rightarrow> real \<Rightarrow> real \<Rightarrow> real" where
  "rk4_step vol_prev xi_prev Dt alpha =
     (let k1 = (vol_prev - xi_prev) / alpha;
          k2 = (vol_prev + 0.5 * Dt * k1 - xi_prev) / alpha;
          k3 = (vol_prev + 0.5 * Dt * k2 - xi_prev) / alpha;
          k4 = (vol_prev + Dt * k3 - xi_prev) / alpha
      in xi_prev + Dt / 6 * (k1 + 2 * k2 + 2 * k3 + k4))"

text \<open>
  Modelled from the spec: the bodies of \<open>euler_stock\<close>, \<open>euler_vol\<close>,
  \<open>milstein_stock\<close> and \<open>milstein_vol\<close>, which \<open>numerical.h\<close> only declares.
  These are the step functions of section 4.2; euler_weak.m writes the same four
  formulas inline.
\<close>

definition spec_euler_stock :: step_fun where
  "spec_euler_stock S_prev vol_prev mu Dt dW = S_prev + mu * S_prev * Dt + vol_prev * S_prev * dW"

definition spec_euler_vol :: step_fun where
  "spec_euler_vol vol_prev xi_prev p Dt dW = vol_prev - (vol_prev - xi_prev) * Dt + p * vol_prev * dW"

definition spec_milstein_stock :: step_fun where
  "spec_milstein_stock S_prev vol_prev mu Dt dW =
     spec_euler_stock S_prev vol_prev mu Dt dW + 0.5 * vol_prev\<^sup>2 * S_prev * (dW\<^sup>2 - Dt)"

definition spec_milstein_vol :: step_fun where
  "spec_milstein_vol vol_prev xi_prev p Dt dW =
     spec_euler_vol vol_prev xi_prev p Dt dW + 0.5 * p\<^sup>2 * vol_prev * (dW\<^sup>2 - Dt)"

text \<open>
  The table of \<open>numerical.h\<close> with these four bodies; the two \<open>rk\<close> functions, for
  which the specification has no formula, stay open.
\<close>

definition spec_numerical :: "step_fun \<Rightarrow> step_fun \<Rightarrow> numerical" where
  "spec_numerical rk_s rk_v =
     \<lparr>euler_stock = spec_euler_stock, euler_vol = spec_euler_vol,
      milstein_stock = spec_milstein_stock, milstein_vol = spec_milstein_vol,
      rk_stock = rk_s, rk_vol = rk_v\<rparr>"







section \<open>The loops of the script as functions of the draws\<close>










section \<open>Properties of the runs\<close>

text \<open>
  The checks of lines 124 to 142 of the gateway: eleven inputs, three outputs, the
  first ten inputs double arrays, \<open>alpha\<close> positive, the method a char array.
\<close>

definition checks_pass :: "int \<Rightarrow> mxArray list \<Rightarrow> bool" where
  "checks_pass nlhs prhs =
     (length prhs = 11 \<and> nlhs = 3 \<and> (\<forall>k < 10. mxIsDouble (prhs ! k))
      \<and> 0 < mxGetPr (prhs ! 8) \<and> mxIsChar (prhs ! 10))"

text \<open>
  What holds of the entries a run of \<open>stockPath\<close> has written so far: the first entry
  of each path holds the initial values, and every other entry of \<open>xi_paths\<close> comes
  from the two entries before it by \<open>xi_next\<close>.
\<close>

definition written_ok :: "real \<Rightarrow> real \<Rightarrow> real \<Rightarrow> real \<Rightarrow> real \<Rightarrow> nat \<Rightarrow> 'g path_state \<Rightarrow> bool" where
  "written_ok S_0 sigma_0 xi_0 alpha Dt N st =
     (\<forall>m < index st.
        if m mod N = 0
        then stock_paths st ! m = S_0 \<and> vol_paths st ! m = sigma_0 \<and> xi_paths st ! m = xi_0
        else xi_paths st ! m = xi_next alpha Dt (vol_paths st ! (m - 1)) (xi_paths st ! (m - 1)))"

text \<open>
  A matrix of NumWrapper.m with \<open>m\<close> rows and \<open>n\<close> columns whose first column
  holds \<open>v\<close> in every row, and a state of the function whose three matrices are
  such, for the three initial values.
\<close>

definition first_column :: "nat \<Rightarrow> nat \<Rightarrow> real \<Rightarrow> matrix \<Rightarrow> bool" where
  "first_column m n v A = (m_rows A = m \<and> m_cols A = n \<and> length (m_data A) = m * n
      \<and> take m (m_data A) = replicate m v)"

definition columns_kept :: "nat \<Rightarrow> nat \<Rightarrow> real \<Rightarrow> real \<Rightarrow> real \<Rightarrow> 'g wrapper_state \<Rightarrow> bool" where
  "columns_kept m n S0 sigma0 xi0 st = (first_column m n S0 (stockPaths st)
      \<and> first_column m n sigma0 (volPaths st) \<and> first_column m n xi0 (xiPaths st))"





section \<open>Concrete inputs\<close>

text \<open>
  A generator for concrete runs: its state counts the draws, seeding sets it to the
  integer part of the seed, and every draw is 2. A table of step functions with the
  Euler formulas in the two \<open>rk\<close> places. Eleven arguments for the gateway: seed 42,
  \<open>Dt = 1\<close>, \<open>sigma_0 = 0.2\<close>, \<open>S_0 = 50\<close>, \<open>xi_0 = 0.2\<close>, \<open>mu = 0.1\<close>,
  \<open>p = 1\<close>, \<open>alpha = 1\<close>, \<open>T = 2\<close>.
\<close>

definition example_gsl :: "nat gsl" where
  "example_gsl = \<lparr>gsl_rng_set = (\<lambda>g s. nat \<lfloor>s\<rfloor>), gsl_ran_gaussian = (\<lambda>g. (2, Suc g))\<rparr>"

definition example_numerical :: numerical where
  "example_numerical = spec_numerical spec_euler_stock spec_euler_vol"

definition example_args :: "real \<Rightarrow> string \<Rightarrow> mxArray list" where
  "example_args samples name =
     [MxDouble 42, MxDouble samples, MxDouble 1, MxDouble 0.2, MxDouble 50, MxDouble 0.2,
      MxDouble 0.1, MxDouble 1, MxDouble 1, MxDouble 2, MxChar name]"

text \<open>
  The C library for concrete runs: where \<open>lround\<close> is unspecified it returns the
  smallest \<open>long\<close>. Eleven arguments with \<open>Dt = 0\<close>, \<open>T = 1\<close> and no sample.
\<close>

definition example_lround :: "real option \<Rightarrow> int" where
  "example_lround x = - (2 ^ 63)"

definition example_args_zero_Dt :: "string \<Rightarrow> mxArray list" where
  "example_args_zero_Dt name =
     [MxDouble 42, MxDouble 0, MxDouble 0, MxDouble 0.2, MxDouble 50, MxDouble 0.2,
      MxDouble 0.1, MxDouble 1, MxDouble 1, MxDouble 1, MxChar name]"



definition example_matlab :: "nat matlab" where
  "example_matlab = \<lparr>randn_set_state = (\<lambda>s. nat \<lfloor>s\<rfloor>), randn1 = (\<lambda>g. (1, Suc g))\<rparr>"

text \<open>
  The state of the script before the reference loop of its first repetition (the
  generator apart).
\<close>

definition example_ew :: "nat ew_state" where
  "example_ew = \<lparr>rng = 0, S = vset (replicate 32000 0) 1 50.0, sig = vset (replicate 32000 0) 1 0.2,
      xi = vset (replicate 32000 0) 1 0.2, mean = replicate 4 0, meanew32000 = 0\<rparr>"

text \<open>A state of the script with vectors of two elements.\<close>

definition example_small :: "nat ew_state" where
  "example_small = \<lparr>rng = 0, S = [50, 0], sig = [0.2, 0], xi = [0.2, 0], mean = [0, 0, 0, 0],
      meanew32000 = 0\<rparr>"

section \<open>Loops\<close>

lemma for_loop_append:
  "for_loop (xs @ ys) body st =
     (case for_loop xs body st of Inl e \<Rightarrow> Inl e | Inr st' \<Rightarrow> for_loop ys body st')"
  by (induction xs arbitrary: st) (auto split: sum.splits)

lemma for_loop_upt_inv:
  assumes run: "for_loop [a..<b] body st = Inr st'"
    and init: "I a st"
    and step: "\<And>i s s'. a \<le> i \<Longrightarrow> i < b \<Longrightarrow> I i s \<Longrightarrow> body i s = Inr s' \<Longrightarrow> I (Suc i) s'"
    and le: "a \<le> b"
  shows "I b st'"
  using run init step le
proof (induction "b - a" arbitrary: a st)
  case 0
  then show ?case by simp
next
  case (Suc n)
  then have lt: "a < b" by simp
  then have "[a..<b] = a # [Suc a..<b]" by (simp add: upt_conv_Cons)
  with Suc.prems(1) obtain s1 where s1: "body a st = Inr s1"
    and rest: "for_loop [Suc a..<b] body s1 = Inr st'"
    by (auto split: sum.splits)
  have I1: "I (Suc a) s1"
    using Suc.prems(3) [OF _ lt Suc.prems(2) s1] by simp
  have n: "n = b - Suc a" using Suc.hyps(2) by simp
  show ?case
  proof (rule Suc.hyps(1) [OF n rest I1])
    fix i s s'
    assume "Suc a \<le> i" "i < b" "I i s" "body i s = Inr s'"
    then show "I (Suc i) s'" using Suc.prems(3) [of i s s'] by simp
  next
    show "Suc a \<le> b" using lt by simp
  qed
qed

lemma for_loop_upt_split:
  assumes "for_loop [a..<b] body st = Inr st'" "a \<le> c" "c \<le> b"
  shows "\<exists>mid. for_loop [a..<c] body st = Inr mid \<and> for_loop [c..<b] body mid = Inr st'"
proof -
  have "[a..<b] = [a..<c] @ [c..<b]"
    using assms(2,3) by (metis le_Suc_ex upt_add_eq_append)
  with assms(1) show ?thesis
    by (auto simp: for_loop_append split: sum.splits)
qed



section \<open>The entries written by \<open>stockPath\<close>\<close>

lemma path_init_Inr:
  assumes "path_init S_0 sigma_0 xi_0 st = Inr st'"
  shows "index st < length (stock_paths st) \<and> index st < length (vol_paths st)
       \<and> index st < length (xi_paths st)
       \<and> st' = st\<lparr>stock_paths := (stock_paths st)[index st := S_0],
                  vol_paths := (vol_paths st)[index st := sigma_0],
                  xi_paths := (xi_paths st)[index st := xi_0],
                  index := index st + 1\<rparr>"
  using assms by (auto simp: path_init_def Let_def split: if_splits)

lemma path_step_Inr:
  assumes "path_step G fs fv Dt mu p alpha st = Inr st'"
  shows "0 < index st \<and> index st < length (stock_paths st) \<and> index st < length (vol_paths st)
       \<and> index st < length (xi_paths st)
       \<and> index st' = index st + 1
       \<and> rng_stock st' = snd (gsl_ran_gaussian G (rng_stock st))
       \<and> rng_vol st' = snd (gsl_ran_gaussian G (rng_vol st))
       \<and> stock_paths st' = (stock_paths st)[index st :=
            fs (stock_paths st ! (index st - 1)) (vol_paths st ! (index st - 1)) mu Dt
               (fst (gsl_ran_gaussian G (rng_stock st)) * sqrt Dt)]
       \<and> vol_paths st' = (vol_paths st)[index st :=
            fv (vol_paths st ! (index st - 1)) (xi_paths st ! (index st - 1)) p Dt
               (fst (gsl_ran_gaussian G (rng_vol st)) * sqrt Dt)]
       \<and> xi_paths st' = (xi_paths st)[index st :=
            xi_next alpha Dt (vol_paths st ! (index st - 1)) (xi_paths st ! (index st - 1))]"
  using assms by (auto simp: path_step_def Let_def split: if_splits prod.splits)

lemma path_init_written:
  assumes r: "path_init S_0 sigma_0 xi_0 st = Inr st'"
    and ix: "index st = i * N" and N: "0 < N"
    and w: "written_ok S_0 sigma_0 xi_0 alpha Dt N st"
  shows "index st' = i * N + 1 \<and> written_ok S_0 sigma_0 xi_0 alpha Dt N st'
       \<and> length (stock_paths st') = length (stock_paths st)
       \<and> length (vol_paths st') = length (vol_paths st)
       \<and> length (xi_paths st') = length (xi_paths st)"
proof -
  note e = path_init_Inr [OF r]
  have "written_ok S_0 sigma_0 xi_0 alpha Dt N st'"
    unfolding written_ok_def
  proof (intro allI impI)
    fix m assume m: "m < index st'"
    show "if m mod N = 0
        then stock_paths st' ! m = S_0 \<and> vol_paths st' ! m = sigma_0 \<and> xi_paths st' ! m = xi_0
        else xi_paths st' ! m = xi_next alpha Dt (vol_paths st' ! (m - 1)) (xi_paths st' ! (m - 1))"
    proof (cases "m = index st")
      case True
      with e ix N show ?thesis by simp
    next
      case False
      with m e have lt: "m < index st" by simp
      with w have "if m mod N = 0
        then stock_paths st ! m = S_0 \<and> vol_paths st ! m = sigma_0 \<and> xi_paths st ! m = xi_0
        else xi_paths st ! m = xi_next alpha Dt (vol_paths st ! (m - 1)) (xi_paths st ! (m - 1))"
        by (simp add: written_ok_def)
      moreover have "m - 1 \<noteq> index st" using lt by simp
      ultimately show ?thesis using e False by (simp split: if_splits)
    qed
  qed
  with e ix show ?thesis by simp
qed

lemma path_step_written:
  assumes r: "path_step G fs fv Dt mu p alpha st = Inr st'"
    and ix: "index st = i * N + j" and j: "0 < j" "j < N"
    and w: "written_ok S_0 sigma_0 xi_0 alpha Dt N st"
  shows "index st' = i * N + Suc j \<and> written_ok S_0 sigma_0 xi_0 alpha Dt N st'
       \<and> length (stock_paths st') = length (stock_paths st)
       \<and> length (vol_paths st') = length (vol_paths st)
       \<and> length (xi_paths st') = length (xi_paths st)"
proof -
  note e = path_step_Inr [OF r]
  have md: "index st mod N = j" using ix j by simp
  have "written_ok S_0 sigma_0 xi_0 alpha Dt N st'"
    unfolding written_ok_def
  proof (intro allI impI)
    fix m assume m: "m < index st'"
    show "if m mod N = 0
        then stock_paths st' ! m = S_0 \<and> vol_paths st' ! m = sigma_0 \<and> xi_paths st' ! m = xi_0
        else xi_paths st' ! m = xi_next alpha Dt (vol_paths st' ! (m - 1)) (xi_paths st' ! (m - 1))"
    proof (cases "m = index st")
      case True
      from e have "0 < index st" by blast
      then have "index st - 1 \<noteq> index st" by simp
      with True e md j show ?thesis by simp
    next
      case False
      with m e have lt: "m < index st" by simp
      with w have "if m mod N = 0
        then stock_paths st ! m = S_0 \<and> vol_paths st ! m = sigma_0 \<and> xi_paths st ! m = xi_0
        else xi_paths st ! m = xi_next alpha Dt (vol_paths st ! (m - 1)) (xi_paths st ! (m - 1))"
        by (simp add: written_ok_def)
      moreover have "m - 1 \<noteq> index st" using lt by simp
      ultimately show ?thesis using e False by (simp split: if_splits)
    qed
  qed
  with e ix show ?thesis by simp
qed

lemma sample_path_written:
  assumes r: "sample_path G fs fv Dt sigma_0 S_0 xi_0 mu p alpha j st = Inr st'"
    and ix: "index st = i * N" and j: "0 < j" "j \<le> N"
    and w: "written_ok S_0 sigma_0 xi_0 alpha Dt N st"
  shows "index st' = i * N + j \<and> written_ok S_0 sigma_0 xi_0 alpha Dt N st'
       \<and> length (stock_paths st') = length (stock_paths st)
       \<and> length (vol_paths st') = length (vol_paths st)
       \<and> length (xi_paths st') = length (xi_paths st)"
proof -
  from r obtain st1 where i1: "path_init S_0 sigma_0 xi_0 st = Inr st1"
    and l1: "for_loop [1..<j] (\<lambda>j. path_step G fs fv Dt mu p alpha) st1 = Inr st'"
    by (auto simp: sample_path_def split: sum.splits)
  have N: "0 < N" using j by simp
  note a = path_init_written [OF i1 ix N w]
  let ?I = "\<lambda>k s. index s = i * N + k \<and> written_ok S_0 sigma_0 xi_0 alpha Dt N s
       \<and> length (stock_paths s) = length (stock_paths st)
       \<and> length (vol_paths s) = length (vol_paths st)
       \<and> length (xi_paths s) = length (xi_paths st)"
  have "?I j st'"
  proof (rule for_loop_upt_inv [where I = ?I, OF l1])
    show "?I 1 st1" using a by simp
  next
    fix k s s'
    assume k: "1 \<le> k" "k < j" and I: "?I k s"
      and b: "path_step G fs fv Dt mu p alpha s = Inr s'"
    have "index s = i * N + k" "0 < k" "k < N" "written_ok S_0 sigma_0 xi_0 alpha Dt N s"
      using k j I by simp_all
    from path_step_written [OF b this] I show "?I (Suc k) s'" by simp
  next
    show "1 \<le> j" using j by simp
  qed
  then show ?thesis .
qed

lemma sample_loop_written:
  assumes r: "for_loop [0..<n] (\<lambda>i. sample_path G fs fv Dt sigma_0 S_0 xi_0 mu p alpha N) st = Inr st'"
    and ix: "index st = 0" and N: "0 < N"
  shows "index st' = n * N \<and> written_ok S_0 sigma_0 xi_0 alpha Dt N st'
       \<and> length (stock_paths st') = length (stock_paths st)
       \<and> length (vol_paths st') = length (vol_paths st)
       \<and> length (xi_paths st') = length (xi_paths st)"
proof -
  let ?I = "\<lambda>k s. index s = k * N \<and> written_ok S_0 sigma_0 xi_0 alpha Dt N s
       \<and> length (stock_paths s) = length (stock_paths st)
       \<and> length (vol_paths s) = length (vol_paths st)
       \<and> length (xi_paths s) = length (xi_paths st)"
  have "?I n st'"
  proof (rule for_loop_upt_inv [where I = ?I, OF r])
    show "?I 0 st" using ix by (simp add: written_ok_def)
  next
    fix k s s'
    assume I: "?I k s"
      and b: "sample_path G fs fv Dt sigma_0 S_0 xi_0 mu p alpha N s = Inr s'"
    have "index s = k * N" "0 < N" "N \<le> N" "written_ok S_0 sigma_0 xi_0 alpha Dt N s"
      using I N by simp_all
    from sample_path_written [OF b this] I show "?I (Suc k) s'" by (simp add: add.commute)
  qed simp
  then show ?thesis .
qed

lemma for_loop_error:
  assumes "for_loop xs body st = Inl e"
    and "\<And>i s e. body i s = Inl e \<Longrightarrow> P e"
  shows "P e"
  using assms(1)
proof (induction xs arbitrary: st)
  case Nil
  then show ?case by simp
next
  case (Cons i xs)
  then show ?case using assms(2) by (auto split: sum.splits)
qed

lemma path_init_Inl: "path_init S_0 sigma_0 xi_0 st = Inl e \<Longrightarrow> \<exists>s. e = Undefined s"
  by (auto simp: path_init_def Let_def split: if_splits)

lemma path_step_Inl: "path_step G fs fv Dt mu p alpha st = Inl e \<Longrightarrow> \<exists>s. e = Undefined s"
  by (auto simp: path_step_def Let_def split: if_splits prod.splits)

lemma sample_path_Inl:
  assumes "sample_path G fs fv Dt sigma_0 S_0 xi_0 mu p alpha N st = Inl e"
  shows "\<exists>s. e = Undefined s"
proof (cases "path_init S_0 sigma_0 xi_0 st")
  case (Inl a)
  with assms show ?thesis by (auto simp: sample_path_def dest: path_init_Inl)
next
  case (Inr st1)
  with assms have "for_loop [1..<N] (\<lambda>j. path_step G fs fv Dt mu p alpha) st1 = Inl e"
    by (simp add: sample_path_def)
  then show ?thesis by (rule for_loop_error) (rule path_step_Inl)
qed

lemma select_method_Some: "m \<noteq> NO_METHOD \<Longrightarrow> \<exists>fs fv. select_method L m = Some (fs, fv)"
  by (cases m) (simp_all add: select_method_def)

lemma stockPath_Inl:
  assumes "stockPath G L g1 g2 samples Dt sigma_0 S_0 xi_0 mu p alpha N m b1 b2 b3 = Inl e"
    and "m \<noteq> NO_METHOD"
  shows "\<exists>s. e = Undefined s"
proof -
  from select_method_Some [OF assms(2)] obtain fs fv where "select_method L m = Some (fs, fv)"
    by blast
  with assms(1) have "for_loop [0..<samples] (\<lambda>i. sample_path G fs fv Dt sigma_0 S_0 xi_0 mu p alpha N)
            \<lparr>rng_stock = g1, rng_vol = g2, index = 0,
             stock_paths = b1, vol_paths = b2, xi_paths = b3\<rparr> = Inl e"
    by (simp add: stockPath_def)
  then show ?thesis by (rule for_loop_error) (rule sample_path_Inl)
qed

lemma stockPath_written:
  assumes run: "stockPath G L g1 g2 samples Dt sigma_0 S_0 xi_0 mu p alpha N m b1 b2 b3 = Inr st"
    and N: "0 < N"
  shows "index st = samples * N \<and> written_ok S_0 sigma_0 xi_0 alpha Dt N st
       \<and> length (stock_paths st) = length b1
       \<and> length (vol_paths st) = length b2
       \<and> length (xi_paths st) = length b3"
proof -
  from run obtain fs fv where
    "for_loop [0..<samples] (\<lambda>i. sample_path G fs fv Dt sigma_0 S_0 xi_0 mu p alpha N)
            \<lparr>rng_stock = g1, rng_vol = g2, index = 0,
             stock_paths = b1, vol_paths = b2, xi_paths = b3\<rparr> = Inr st"
    by (auto simp: stockPath_def split: option.splits)
  from sample_loop_written [OF this _ N] show ?thesis by simp
qed

lemma stockPath_needs_rows:
  assumes run: "stockPath G L g1 g2 samples Dt sigma_0 S_0 xi_0 mu p alpha N m b1 b2 b3 = Inr st"
    and len: "length b1 = N * samples" and s: "0 < samples"
  shows "0 < N"
proof (rule ccontr)
  assume "\<not> 0 < N"
  then have e: "b1 = []" using len by simp
  from run obtain fs fv where
    l: "for_loop [0..<samples] (\<lambda>i. sample_path G fs fv Dt sigma_0 S_0 xi_0 mu p alpha N)
            \<lparr>rng_stock = g1, rng_vol = g2, index = 0,
             stock_paths = b1, vol_paths = b2, xi_paths = b3\<rparr> = Inr st"
    by (auto simp: stockPath_def split: option.splits)
  have "[0..<samples] = 0 # [1..<samples]" using s by (simp add: upt_conv_Cons)
  with l e show False
    by (simp add: sample_path_def path_init_def split: sum.splits)
qed

section \<open>The outcomes of the gateway\<close>

lemma all_less_10:
  "(\<forall>k < (10::nat). P k) = (P 0 \<and> P 1 \<and> P 2 \<and> P 3 \<and> P 4 \<and> P 5 \<and> P 6 \<and> P 7 \<and> P 8 \<and> P 9)"
proof -
  have "{..<(10::nat)} = {0,1,2,3,4,5,6,7,8,9}" by auto
  then have "(\<forall>k < (10::nat). P k) = (\<forall>k \<in> {0,1,2,3,4,5,6,7,8,9}. P k)"
    by (metis lessThan_iff)
  then show ?thesis by simp
qed

lemma mexFunction_checks_fail:
  assumes "\<not> checks_pass nlhs prhs"
  shows "\<exists>msg. mexFunction U G L f1 f2 nlhs prhs = ([], Inl (MexErr msg))"
  using assms unfolding checks_pass_def all_less_10 mexFunction_def Let_def
  by (simp split: if_splits) 

lemma mexFunction_checked:
  assumes "checks_pass nlhs prhs"
  shows "mexFunction U G L f1 f2 nlhs prhs =
    (let N = mwSize_of_long (lround_of U (double_div (mxGetPr (prhs ! 9)) (mxGetPr (prhs ! 2))));
         samples = mwSize_of_long (lround_of U (Some (mxGetPr (prhs ! 1))));
         created = [CreateDoubleMatrix N samples, CreateDoubleMatrix N samples,
                    CreateDoubleMatrix N samples];
         num_method = method_of (mxArrayToString (prhs ! 10))
     in
     if num_method = NO_METHOD
     then (created, Inl (MexErr ''Only 'euler', 'milstein' and 'rk' are implemented''))
     else
       let seeded = created @ [RngAlloc, RngAlloc, RngSet (mxGetPr (prhs ! 0)),
                               RngSet (mxGetPr (prhs ! 0) + 1)]
       in
       case stockPath G L (gsl_rng_set G f1 (mxGetPr (prhs ! 0)))
              (gsl_rng_set G f2 (mxGetPr (prhs ! 0) + 1)) samples (mxGetPr (prhs ! 2))
              (mxGetPr (prhs ! 3)) (mxGetPr (prhs ! 4)) (mxGetPr (prhs ! 5)) (mxGetPr (prhs ! 6))
              (mxGetPr (prhs ! 7)) (mxGetPr (prhs ! 8)) N num_method
              (replicate (N * samples) 0) (replicate (N * samples) 0) (replicate (N * samples) 0) of
         Inl e \<Rightarrow> (seeded, Inl e)
       | Inr st \<Rightarrow>
           (seeded @ [RngFree, RngFree],
            Inr (\<lparr>m_rows = N, m_cols = samples, m_data = stock_paths st\<rparr>,
                 \<lparr>m_rows = N, m_cols = samples, m_data = vol_paths st\<rparr>,
                 \<lparr>m_rows = N, m_cols = samples, m_data = xi_paths st\<rparr>)))"
  using assms unfolding checks_pass_def all_less_10 mexFunction_def Let_def mxCreateDoubleMatrix_def
  by (simp split: option.splits sum.splits)

lemma lround_of_Some: "lround x = Some z \<Longrightarrow> lround_of U (Some x) = z"
  by (simp add: lround_of_def)

lemma double_div_Some: "y \<noteq> 0 \<Longrightarrow> double_div x y = Some (x / y)"
  by (simp add: double_div_def)

lemma mexFunction_cases:
  fixes U :: "real option \<Rightarrow> int" and prhs :: "mxArray list"
  defines "N \<equiv> mwSize_of_long (lround_of U (double_div (mxGetPr (prhs ! 9)) (mxGetPr (prhs ! 2))))"
    and "s \<equiv> mwSize_of_long (lround_of U (Some (mxGetPr (prhs ! 1))))"
  obtains
    (refused) msg where "\<not> checks_pass nlhs prhs"
      "mexFunction U G L f1 f2 nlhs prhs = ([], Inl (MexErr msg))"
  | (no_method) "checks_pass nlhs prhs"
      "method_of (mxArrayToString (prhs ! 10)) = NO_METHOD"
      "mexFunction U G L f1 f2 nlhs prhs =
         ([CreateDoubleMatrix N s, CreateDoubleMatrix N s, CreateDoubleMatrix N s],
          Inl (MexErr ''Only 'euler', 'milstein' and 'rk' are implemented''))"
  | (fault) u where "checks_pass nlhs prhs"
      "method_of (mxArrayToString (prhs ! 10)) \<noteq> NO_METHOD"
      "mexFunction U G L f1 f2 nlhs prhs =
         ([CreateDoubleMatrix N s, CreateDoubleMatrix N s, CreateDoubleMatrix N s,
           RngAlloc, RngAlloc, RngSet (mxGetPr (prhs ! 0)), RngSet (mxGetPr (prhs ! 0) + 1)],
          Inl (Undefined u))"
  | (finished) st where "checks_pass nlhs prhs"
      "method_of (mxArrayToString (prhs ! 10)) \<noteq> NO_METHOD"
      "stockPath G L (gsl_rng_set G f1 (mxGetPr (prhs ! 0)))
         (gsl_rng_set G f2 (mxGetPr (prhs ! 0) + 1)) s (mxGetPr (prhs ! 2))
         (mxGetPr (prhs ! 3)) (mxGetPr (prhs ! 4)) (mxGetPr (prhs ! 5)) (mxGetPr (prhs ! 6))
         (mxGetPr (prhs ! 7)) (mxGetPr (prhs ! 8)) N
         (method_of (mxArrayToString (prhs ! 10)))
         (replicate (N * s) 0) (replicate (N * s) 0) (replicate (N * s) 0) = Inr st"
      "mexFunction U G L f1 f2 nlhs prhs =
         ([CreateDoubleMatrix N s, CreateDoubleMatrix N s, CreateDoubleMatrix N s,
           RngAlloc, RngAlloc, RngSet (mxGetPr (prhs ! 0)), RngSet (mxGetPr (prhs ! 0) + 1),
           RngFree, RngFree],
          Inr (\<lparr>m_rows = N, m_cols = s, m_data = stock_paths st\<rparr>,
               \<lparr>m_rows = N, m_cols = s, m_data = vol_paths st\<rparr>,
               \<lparr>m_rows = N, m_cols = s, m_data = xi_paths st\<rparr>))"
proof (cases "checks_pass nlhs prhs")
  case False
  with mexFunction_checks_fail [OF False, of U G L f1 f2] refused show ?thesis by blast
next
  case True
  note eq = mexFunction_checked [OF True, of U G L f1 f2, folded N_def s_def]
  show ?thesis
  proof (cases "method_of (mxArrayToString (prhs ! 10)) = NO_METHOD")
    case nm: True
    with True eq no_method show ?thesis by (simp add: Let_def)
  next
    case m: False
    let ?r = "stockPath G L (gsl_rng_set G f1 (mxGetPr (prhs ! 0)))
               (gsl_rng_set G f2 (mxGetPr (prhs ! 0) + 1)) s (mxGetPr (prhs ! 2))
               (mxGetPr (prhs ! 3)) (mxGetPr (prhs ! 4)) (mxGetPr (prhs ! 5)) (mxGetPr (prhs ! 6))
               (mxGetPr (prhs ! 7)) (mxGetPr (prhs ! 8)) N
               (method_of (mxArrayToString (prhs ! 10)))
               (replicate (N * s) 0) (replicate (N * s) 0) (replicate (N * s) 0)"
    show ?thesis
    proof (cases ?r)
      case (Inl e)
      from stockPath_Inl [OF Inl m] obtain u where "e = Undefined u" by blast
      with Inl m have "mexFunction U G L f1 f2 nlhs prhs =
         ([CreateDoubleMatrix N s, CreateDoubleMatrix N s, CreateDoubleMatrix N s,
           RngAlloc, RngAlloc, RngSet (mxGetPr (prhs ! 0)), RngSet (mxGetPr (prhs ! 0) + 1)],
          Inl (Undefined u))"
        unfolding eq by (simp add: Let_def)
      with True m fault show ?thesis by blast
    next
      case (Inr st)
      with m have "mexFunction U G L f1 f2 nlhs prhs =
         ([CreateDoubleMatrix N s, CreateDoubleMatrix N s, CreateDoubleMatrix N s,
           RngAlloc, RngAlloc, RngSet (mxGetPr (prhs ! 0)), RngSet (mxGetPr (prhs ! 0) + 1),
           RngFree, RngFree],
          Inr (\<lparr>m_rows = N, m_cols = s, m_data = stock_paths st\<rparr>,
               \<lparr>m_rows = N, m_cols = s, m_data = vol_paths st\<rparr>,
               \<lparr>m_rows = N, m_cols = s, m_data = xi_paths st\<rparr>))"
        unfolding eq by (simp add: Let_def)
      with True m Inr finished show ?thesis by blast
    qed
  qed
qed

lemma written_ok_first:
  assumes "written_ok S_0 sigma_0 xi_0 alpha Dt N st" "s * N < index st" "0 < N"
  shows "stock_paths st ! (s * N) = S_0 \<and> vol_paths st ! (s * N) = sigma_0
       \<and> xi_paths st ! (s * N) = xi_0"
  using assms unfolding written_ok_def by (auto dest!: spec [of _ "s * N"])

lemma written_ok_later:
  assumes "written_ok S_0 sigma_0 xi_0 alpha Dt N st" "s * N + j < index st" "0 < j" "j < N"
  shows "xi_paths st ! (s * N + j)
       = xi_next alpha Dt (vol_paths st ! (s * N + j - 1)) (xi_paths st ! (s * N + j - 1))"
  using assms unfolding written_ok_def by (auto dest!: spec [of _ "s * N + j"])

lemma stockPath_upto_written:
  assumes run: "stockPath G L g1 g2 samples Dt sigma_0 S_0 xi_0 mu p alpha N m b1 b2 b3 = Inr fin"
    and N: "0 < N" and i: "i < samples" and j: "j \<le> N"
  shows "\<exists>st. stockPath_upto i j G L g1 g2 Dt sigma_0 S_0 xi_0 mu p alpha N m b1 b2 b3 = Inr st
          \<and> index st = i * N + j \<and> written_ok S_0 sigma_0 xi_0 alpha Dt N st"
proof -
  let ?st0 = "\<lparr>rng_stock = g1, rng_vol = g2, index = 0,
             stock_paths = b1, vol_paths = b2, xi_paths = b3\<rparr>"
  from run obtain fs fv where sel: "select_method L m = Some (fs, fv)"
    and l: "for_loop [0..<samples] (\<lambda>i. sample_path G fs fv Dt sigma_0 S_0 xi_0 mu p alpha N) ?st0
            = Inr fin"
    by (auto simp: stockPath_def split: option.splits)
  from for_loop_upt_split [OF l, of i] i obtain mid where
    mid: "for_loop [0..<i] (\<lambda>i. sample_path G fs fv Dt sigma_0 S_0 xi_0 mu p alpha N) ?st0 = Inr mid"
    and rest: "for_loop [i..<samples] (\<lambda>i. sample_path G fs fv Dt sigma_0 S_0 xi_0 mu p alpha N) mid
            = Inr fin"
    by auto
  have sp: "stockPath G L g1 g2 i Dt sigma_0 S_0 xi_0 mu p alpha N m b1 b2 b3 = Inr mid"
    using sel mid by (simp add: stockPath_def)
  note wm = stockPath_written [OF sp N]
  show ?thesis
  proof (cases "j = 0")
    case True
    with sp wm show ?thesis by (simp add: stockPath_upto_def)
  next
    case False
    have "[i..<samples] = i # [Suc i..<samples]" using i by (simp add: upt_conv_Cons)
    with rest obtain nxt where
      "sample_path G fs fv Dt sigma_0 S_0 xi_0 mu p alpha N mid = Inr nxt"
      by (auto split: sum.splits)
    then obtain st1 where i1: "path_init S_0 sigma_0 xi_0 mid = Inr st1"
      and l1: "for_loop [1..<N] (\<lambda>j. path_step G fs fv Dt mu p alpha) st1 = Inr nxt"
      by (auto simp: sample_path_def split: sum.splits)
    from False j for_loop_upt_split [OF l1, of j] obtain stj where
      "for_loop [1..<j] (\<lambda>j. path_step G fs fv Dt mu p alpha) st1 = Inr stj"
      by auto
    with i1 have sj: "sample_path G fs fv Dt sigma_0 S_0 xi_0 mu p alpha j mid = Inr stj"
      by (simp add: sample_path_def)
    from wm have im: "index mid = i * N"
      and wo: "written_ok S_0 sigma_0 xi_0 alpha Dt N mid" by blast+
    from False have j0: "0 < j" by simp
    from sample_path_written [OF sj im j0 j wo] sp sel sj False show ?thesis
      by (simp add: stockPath_upto_def)
  qed
qed

lemma xi_next_rk4: "xi_next alpha Dt vol_prev xi_prev = rk4_step vol_prev xi_prev Dt alpha"
  by (simp add: xi_next_def rk4_step_def Let_def)

section \<open>The first column in NumWrapper.m\<close>

lemma first_column_init:
  assumes "1 \<le> n"
  shows "first_column m n v (assign_col1 (zeros m n) v)"
proof -
  have "m \<le> m * n" using assms by simp
  then show ?thesis using assms by (simp add: first_column_def assign_col1_def zeros_def)
qed

lemma first_column_mset:
  assumes "first_column m n v A" "2 \<le> j"
  shows "first_column m n v (mset A i j x)"
proof -
  from assms(2) obtain d where "j - 1 = Suc d" by (cases "j - 1") simp_all
  then have "m \<le> (j - 1) * m + (i - 1)" by simp
  with assms(1) show ?thesis by (simp add: first_column_def mset_def)
qed

lemma first_column_mget:
  assumes "first_column m n v A" "Suc 0 \<le> i" "i \<le> m"
  shows "mget A i (Suc 0) = v"
proof -
  from assms have "i - 1 < m" by simp
  then have "take m (m_data A) ! (i - 1) = m_data A ! (i - 1)" by simp
  with assms show ?thesis by (simp add: mget_def first_column_def)
qed

lemma wrapper_step_kept:
  assumes "wrapper_step handles Dt mu p alpha phiStock phiVol i j st = Inr st'"
    and "columns_kept m n S0 sigma0 xi0 st" and "2 \<le> j"
  shows "columns_kept m n S0 sigma0 xi0 st'"
  using assms
  by (auto simp: wrapper_step_def columns_kept_def Let_def first_column_mset
      split: option.splits)

lemma wrapper_sample_kept:
  assumes r: "wrapper_sample M handles Dt mu p alpha N i st = Inr st'"
    and k: "columns_kept m n S0 sigma0 xi0 st"
  shows "columns_kept m n S0 sigma0 xi0 st'"
proof -
  obtain ds g1 where a: "randn_draws M ((N - 1) * (N - 1)) (w_rng st) = (ds, g1)"
    by (metis surj_pair)
  obtain dv g2 where b: "randn_draws M ((N - 1) * (N - 1)) g1 = (dv, g2)"
    by (metis surj_pair)
  from r a b have l: "for_loop [2..<Suc N]
      (wrapper_step handles Dt mu p alpha (map (\<lambda>x. x * sqrt Dt) ds) (map (\<lambda>x. x * sqrt Dt) dv) i)
      (st\<lparr>w_rng := g2\<rparr>) = Inr st'"
    by (simp add: wrapper_sample_def Let_def)
  show ?thesis
  proof (cases "2 \<le> Suc N")
    case True
    have "columns_kept m n S0 sigma0 xi0 (st\<lparr>w_rng := g2\<rparr>)"
      using k by (simp add: columns_kept_def)
    then show ?thesis
      by (rule for_loop_upt_inv [where I = "\<lambda>j. columns_kept m n S0 sigma0 xi0", OF l])
         (use True in \<open>auto intro: wrapper_step_kept\<close>)
  next
    case False
    then have "[2..<Suc N] = []" by simp
    with l k show ?thesis by (auto simp: columns_kept_def)
  qed
qed

lemma NumWrapper_columns:
  assumes r: "NumWrapper M L randstate samples Dt sigma0 S0 xi0 mu p alpha T numMethod = Inr w"
    and n: "size_arg (NumWrapper_N T Dt) = Inr n" "1 \<le> n" and m: "size_arg samples = Inr m"
  shows "columns_kept m n S0 sigma0 xi0 w"
proof -
  let ?h = "(if numMethod = ''Euler'' then Some (euler_stock L, euler_vol L)
             else if numMethod = ''Milstein'' then Some (milstein_stock L, milstein_vol L)
             else if numMethod = ''RK'' then Some (rk_stock L, rk_vol L)
             else None)"
  let ?st0 = "\<lparr>w_rng = randn_set_state M randstate,
                stockPaths = assign_col1 (zeros m n) S0,
                volPaths = assign_col1 (zeros m n) sigma0,
                xiPaths = assign_col1 (zeros m n) xi0\<rparr>"
  from r n m have l: "for_loop [1..<Suc m] (wrapper_sample M ?h Dt mu p alpha n) ?st0 = Inr w"
    by (simp add: NumWrapper_def Let_def split: if_splits)
  have "columns_kept m n S0 sigma0 xi0 ?st0"
    using n(2) by (simp add: columns_kept_def first_column_init)
  then show ?thesis
    by (rule for_loop_upt_inv [where I = "\<lambda>j. columns_kept m n S0 sigma0 xi0", OF l])
       (auto intro: wrapper_sample_kept)
qed

lemma example_NumWrapper:
  "\<exists>w. NumWrapper example_matlab example_numerical 42 1 1 0.2 50 0.2 0.1 1 1 2 ''Euler'' = Inr w"
  by (simp add: NumWrapper_def NumWrapper_N_def size_arg_def Let_def wrapper_sample_def
      wrapper_step_def example_matlab_def example_numerical_def spec_numerical_def upt_conv_Cons)

lemma example_sizes:
  "size_arg 1 = Inr 1" "size_arg (NumWrapper_N 2 1) = Inr 2"
  by (simp_all add: size_arg_def NumWrapper_N_def)

lemma method_of_names:
  "method_of ''euler'' = EULER" "method_of ''milstein'' = MILSTEIN" "method_of ''rk'' = RK"
  by (simp_all add: method_of_def strncmp_eq_def)

section \<open>The number of steps\<close>

lemma lround_nearest:
  assumes "lround x = Some z"
  shows "\<bar>x - real_of_int z\<bar> \<le> 1 / 2"
proof -
  have z: "z = (if 0 \<le> x then \<lfloor>x + 1 / 2\<rfloor> else - \<lfloor>- x + 1 / 2\<rfloor>)"
    using assms by (simp add: lround_def Let_def split: if_splits)
  show ?thesis
  proof (cases "0 \<le> x")
    case True
    with z have "z = \<lfloor>x + 1 / 2\<rfloor>" by simp
    then show ?thesis by linarith
  next
    case False
    with z have "z = - \<lfloor>- x + 1 / 2\<rfloor>" by simp
    then show ?thesis by linarith
  qed
qed

text \<open>
  Claim C7 (the number of simulated steps is \<open>T / Dt\<close> rounded to the nearest
  integer). NumWrapper.m takes \<open>N = T / Dt\<close> as it is: for \<open>T = 5\<close> and
  \<open>Dt = 2\<close> it has \<open>N = 5 / 2\<close>, not an integer, and \<open>zeros(samples, N)\<close>
  is refused, where \<open>lround\<close> of stocksim.c gives 3.
\<close>

theorem NumWrapper_step_count_unrounded:
  "NumWrapper_N 5 2 = 5 / 2 \<and> lround (5 / 2) = Some 3
   \<and> NumWrapper example_matlab example_numerical 42 1 2 0.2 50 0.2 0.1 1 1 5 ''Euler''
       = Inl (MatlabErr ''Size inputs must be integers.'')"
proof -
  have f: "\<lfloor>5 / 2 :: real\<rfloor> = 2" by simp
  have "size_arg (5 / 2) = Inl (MatlabErr ''Size inputs must be integers.'')"
    unfolding size_arg_def f by simp
  moreover have "size_arg 1 = Inr 1" by (simp add: size_arg_def)
  ultimately show ?thesis
    by (simp add: NumWrapper_def NumWrapper_N_def lround_def Let_def)
qed

section \<open>Concrete runs\<close>

lemmas mex_eval = mexFunction_def example_args_def mxIsDouble_def mxIsChar_def mxGetPr_def
      mxArrayToString_def method_of_def strncmp_eq_def lround_def mwSize_of_long_def Let_def
      mxCreateDoubleMatrix_def stockPath_def select_method_def sample_path_def path_init_def
      path_step_def example_gsl_def example_numerical_def spec_numerical_def upt_conv_Cons
      spec_euler_stock_def spec_euler_vol_def xi_next_def numeral_2_eq_2
      lround_of_def double_div_def example_lround_def

lemma example_foo:
  "mexFunction example_lround example_gsl example_numerical 0 0 3 (example_args 1 ''foo'')
   = ([CreateDoubleMatrix 2 1, CreateDoubleMatrix 2 1, CreateDoubleMatrix 2 1],
      Inl (MexErr ''Only 'euler', 'milstein' and 'rk' are implemented''))"
  by (simp add: mex_eval)

lemma example_euler:
  "mexFunction example_lround example_gsl example_numerical 0 0 3 (example_args 1 ''euler'')
   = ([CreateDoubleMatrix 2 1, CreateDoubleMatrix 2 1, CreateDoubleMatrix 2 1,
       RngAlloc, RngAlloc, RngSet 42, RngSet 43, RngFree, RngFree],
      Inr (\<lparr>m_rows = 2, m_cols = 1, m_data = [50, 75]\<rparr>,
           \<lparr>m_rows = 2, m_cols = 1, m_data = [0.2, 0.6]\<rparr>,
           \<lparr>m_rows = 2, m_cols = 1, m_data = [0.2, 0.2]\<rparr>))"
  by (simp add: mex_eval)

lemma example_zero_Dt:
  "mexFunction example_lround example_gsl example_numerical 0 0 3 (example_args_zero_Dt ''foo'')
   = ([CreateDoubleMatrix (2 ^ 63) 0, CreateDoubleMatrix (2 ^ 63) 0, CreateDoubleMatrix (2 ^ 63) 0],
      Inl (MexErr ''Only 'euler', 'milstein' and 'rk' are implemented''))"
proof -
  have "nat (- (2 ^ 63) mod 2 ^ 64) = 2 ^ 63" by simp
  then show ?thesis
    by (simp add: mexFunction_def example_args_zero_Dt_def mxIsDouble_def mxIsChar_def mxGetPr_def
        mxArrayToString_def method_of_def strncmp_eq_def lround_def mwSize_of_long_def Let_def
        lround_of_def double_div_def example_lround_def)
qed

lemma example_checks_zero_Dt: "checks_pass 3 (example_args_zero_Dt name)"
  by (simp add: checks_pass_def all_less_10 example_args_zero_Dt_def mxIsDouble_def mxIsChar_def
      mxGetPr_def)

lemma example_checks: "checks_pass 3 (example_args samples name)"
  by (simp add: checks_pass_def all_less_10 example_args_def mxIsDouble_def mxIsChar_def
      mxGetPr_def)

lemma example_stockPath:
  "stockPath example_gsl example_numerical 42 43 2 1 0.2 50 0.2 0.1 1 1 2 EULER
     (replicate 4 0) (replicate 4 0) (replicate 4 0)
   = Inr \<lparr>rng_stock = 44, rng_vol = 45, index = 4, stock_paths = [50, 75, 50, 75],
          vol_paths = [0.2, 0.6, 0.2, 0.6], xi_paths = [0.2, 0.2, 0.2, 0.2]\<rparr>"
  by (simp add: stockPath_def select_method_def sample_path_def path_init_def
      path_step_def example_gsl_def example_numerical_def spec_numerical_def upt_conv_Cons
      spec_euler_stock_def spec_euler_vol_def xi_next_def Let_def eval_nat_numeral)

section \<open>The gateway's errors and outputs\<close>

text \<open>
  Claim C2, as the gateway has it: when the method name begins with none of the three
  names, the invocation ends in an error and no generator has been allocated; when it
  is the method check that ends it, the three output matrices have been created
  before, with the sizes the two calls of \<open>lround\<close> gave.
\<close>

theorem unrecognised_method_no_stream:
  assumes "method_of (mxArrayToString (prhs ! 10)) = NO_METHOD"
  shows "(\<exists>e. snd (mexFunction U G L f1 f2 nlhs prhs) = Inl e)
       \<and> RngAlloc \<notin> set (fst (mexFunction U G L f1 f2 nlhs prhs))
       \<and> (checks_pass nlhs prhs
          \<longrightarrow> (\<exists>N s. mexFunction U G L f1 f2 nlhs prhs =
              ([CreateDoubleMatrix N s, CreateDoubleMatrix N s, CreateDoubleMatrix N s],
               Inl (MexErr ''Only 'euler', 'milstein' and 'rk' are implemented''))))
       \<and> (checks_pass nlhs prhs \<and> mxGetPr (prhs ! 2) \<noteq> 0
            \<and> lround (mxGetPr (prhs ! 9) / mxGetPr (prhs ! 2)) = Some Nl
            \<and> lround (mxGetPr (prhs ! 1)) = Some sl
          \<longrightarrow> mexFunction U G L f1 f2 nlhs prhs =
              ([CreateDoubleMatrix (mwSize_of_long Nl) (mwSize_of_long sl),
                CreateDoubleMatrix (mwSize_of_long Nl) (mwSize_of_long sl),
                CreateDoubleMatrix (mwSize_of_long Nl) (mwSize_of_long sl)],
               Inl (MexErr ''Only 'euler', 'milstein' and 'rk' are implemented'')))"
  using assms
  by (cases rule: mexFunction_cases [of nlhs prhs U G L f1 f2])
     (auto simp: lround_of_Some double_div_Some)

theorem unrecognised_method_no_stream_witness:
  "method_of (mxArrayToString (example_args 1 ''foo'' ! 10)) = NO_METHOD
   \<and> RngAlloc \<notin> set (fst (mexFunction example_lround example_gsl example_numerical 0 0 3
        (example_args 1 ''foo'')))
   \<and> mexFunction example_lround example_gsl example_numerical 0 0 3 (example_args 1 ''foo'') =
       ([CreateDoubleMatrix (mwSize_of_long 2) (mwSize_of_long 1),
         CreateDoubleMatrix (mwSize_of_long 2) (mwSize_of_long 1),
         CreateDoubleMatrix (mwSize_of_long 2) (mwSize_of_long 1)],
        Inl (MexErr ''Only 'euler', 'milstein' and 'rk' are implemented''))"
proof -
  have m: "method_of (mxArrayToString (example_args 1 ''foo'' ! 10)) = NO_METHOD"
    by (simp add: example_args_def mxArrayToString_def method_of_def strncmp_eq_def)
  have d: "mxGetPr (example_args 1 ''foo'' ! 2) \<noteq> 0"
    "lround (mxGetPr (example_args 1 ''foo'' ! 9) / mxGetPr (example_args 1 ''foo'' ! 2)) = Some 2"
    "lround (mxGetPr (example_args 1 ''foo'' ! 1)) = Some 1"
    by (simp_all add: example_args_def mxGetPr_def lround_def Let_def)
  from unrecognised_method_no_stream [OF m, of example_lround example_gsl example_numerical 0 0 3 2 1]
    example_checks d m show ?thesis by simp
qed

text \<open>
  Against claim C2 as stated: with the name \<open>foo\<close> the three matrices are created
  before the error.
\<close>

theorem matrices_created_before_method_error:
  "''foo'' \<notin> {''euler'', ''milstein'', ''rk''}
   \<and> mexFunction example_lround example_gsl example_numerical 0 0 3 (example_args 1 ''foo'')
     = ([CreateDoubleMatrix 2 1, CreateDoubleMatrix 2 1, CreateDoubleMatrix 2 1],
        Inl (MexErr ''Only 'euler', 'milstein' and 'rk' are implemented''))"
  by (simp add: mex_eval)

text \<open>
  Claim C4, as the gateway has it: for a method name that is one of the three names
  or begins with none of them, an invocation ends in \<open>mexErrMsgTxt\<close> exactly when
  one of the checks of lines 124 to 142 fails (the numbers of inputs and outputs, the
  classes of the inputs, \<open>alpha > 0\<close>), or the name is none of the three. \<open>Dt\<close>,
  \<open>T\<close> and the number of samples are not checked, whatever their values.
\<close>

theorem mexErrMsgTxt_iff:
  assumes "mxArrayToString (prhs ! 10) \<in> {''euler'', ''milstein'', ''rk''}
           \<or> method_of (mxArrayToString (prhs ! 10)) = NO_METHOD"
  shows "(\<exists>msg. snd (mexFunction U G L f1 f2 nlhs prhs) = Inl (MexErr msg)) \<longleftrightarrow>
     (\<not> checks_pass nlhs prhs
      \<or> mxArrayToString (prhs ! 10) \<notin> {''euler'', ''milstein'', ''rk''})"
proof -
  have "method_of (mxArrayToString (prhs ! 10)) = NO_METHOD
      \<longleftrightarrow> mxArrayToString (prhs ! 10) \<notin> {''euler'', ''milstein'', ''rk''}"
    using assms method_of_names by auto
  then show ?thesis
    by (cases rule: mexFunction_cases [of nlhs prhs U G L f1 f2]) auto
qed

theorem mexErrMsgTxt_iff_witness:
  "checks_pass 3 (example_args 1 ''foo'')
   \<and> method_of (mxArrayToString (example_args 1 ''foo'' ! 10)) = NO_METHOD
   \<and> mxArrayToString (example_args 1 ''foo'' ! 10) \<notin> {''euler'', ''milstein'', ''rk''}
   \<and> (\<exists>msg. snd (mexFunction example_lround example_gsl example_numerical 0 0 3
          (example_args 1 ''foo'')) = Inl (MexErr msg))
   \<and> checks_pass 3 (example_args_zero_Dt ''foo'')
   \<and> mxGetPr (example_args_zero_Dt ''foo'' ! 2) = 0
   \<and> (\<exists>msg. snd (mexFunction example_lround example_gsl example_numerical 0 0 3
          (example_args_zero_Dt ''foo'')) = Inl (MexErr msg))"
proof -
  have m: "method_of (mxArrayToString (example_args 1 ''foo'' ! 10)) = NO_METHOD"
    "method_of (mxArrayToString (example_args_zero_Dt ''foo'' ! 10)) = NO_METHOD"
    by (simp_all add: example_args_def example_args_zero_Dt_def mxArrayToString_def method_of_def
        strncmp_eq_def)
  have n: "mxArrayToString (example_args 1 ''foo'' ! 10) \<notin> {''euler'', ''milstein'', ''rk''}"
    "mxArrayToString (example_args_zero_Dt ''foo'' ! 10) \<notin> {''euler'', ''milstein'', ''rk''}"
    by (simp_all add: example_args_def example_args_zero_Dt_def mxArrayToString_def)
  have z: "mxGetPr (example_args_zero_Dt ''foo'' ! 2) = 0"
    by (simp add: example_args_zero_Dt_def mxGetPr_def)
  from mexErrMsgTxt_iff [of "example_args 1 ''foo''" example_lround example_gsl example_numerical 0 0 3]
    mexErrMsgTxt_iff [of "example_args_zero_Dt ''foo''" example_lround example_gsl
      example_numerical 0 0 3]
    example_checks example_checks_zero_Dt m n z show ?thesis by simp
qed

text \<open>
  Against claim C4 as stated: an invocation with no samples ends without an error,
  with three matrices of two rows and no column.
\<close>

theorem zero_samples_accepted:
  "mexFunction example_lround example_gsl example_numerical 0 0 3 (example_args 0 ''euler'')
   = ([CreateDoubleMatrix 2 0, CreateDoubleMatrix 2 0, CreateDoubleMatrix 2 0,
       RngAlloc, RngAlloc, RngSet 42, RngSet 43, RngFree, RngFree],
      Inr (\<lparr>m_rows = 2, m_cols = 0, m_data = []\<rparr>, \<lparr>m_rows = 2, m_cols = 0, m_data = []\<rparr>,
           \<lparr>m_rows = 2, m_cols = 0, m_data = []\<rparr>))"
  by (simp add: mex_eval)

lemma mexFunction_output_matrices:
  assumes run: "mexFunction U G L f1 f2 nlhs prhs = (calls, Inr (STOCKPATHS, VOLPATHS, XIPATHS))"
  shows "(\<forall>A \<in> {STOCKPATHS, VOLPATHS, XIPATHS}.
             m_rows A = mwSize_of_long (lround_of U (double_div (mxGetPr (prhs ! 9)) (mxGetPr (prhs ! 2))))
             \<and> m_cols A = mwSize_of_long (lround_of U (Some (mxGetPr (prhs ! 1))))
             \<and> length (m_data A)
                = mwSize_of_long (lround_of U (double_div (mxGetPr (prhs ! 9)) (mxGetPr (prhs ! 2))))
                  * mwSize_of_long (lround_of U (Some (mxGetPr (prhs ! 1)))))
       \<and> (\<forall>c < mwSize_of_long (lround_of U (Some (mxGetPr (prhs ! 1)))).
             elem STOCKPATHS 0 c = mxGetPr (prhs ! 4) \<and> elem VOLPATHS 0 c = mxGetPr (prhs ! 3)
             \<and> elem XIPATHS 0 c = mxGetPr (prhs ! 5))"
proof -
  define N where "N = mwSize_of_long (lround_of U (double_div (mxGetPr (prhs ! 9)) (mxGetPr (prhs ! 2))))"
  define s where "s = mwSize_of_long (lround_of U (Some (mxGetPr (prhs ! 1))))"
  have "(\<forall>A \<in> {STOCKPATHS, VOLPATHS, XIPATHS}.
             m_rows A = N \<and> m_cols A = s \<and> length (m_data A) = N * s)
       \<and> (\<forall>c < s.
             elem STOCKPATHS 0 c = mxGetPr (prhs ! 4) \<and> elem VOLPATHS 0 c = mxGetPr (prhs ! 3)
             \<and> elem XIPATHS 0 c = mxGetPr (prhs ! 5))"
  proof (cases rule: mexFunction_cases [of nlhs prhs U G L f1 f2])
    case (finished st)
    note fin = finished(3,4) [folded N_def s_def]
    from fin(2) run have A: "STOCKPATHS = \<lparr>m_rows = N, m_cols = s, m_data = stock_paths st\<rparr>"
      and B: "VOLPATHS = \<lparr>m_rows = N, m_cols = s, m_data = vol_paths st\<rparr>"
      and C: "XIPATHS = \<lparr>m_rows = N, m_cols = s, m_data = xi_paths st\<rparr>"
      by simp_all
    have shape: "\<forall>A \<in> {STOCKPATHS, VOLPATHS, XIPATHS}.
               m_rows A = N \<and> m_cols A = s \<and> length (m_data A) = N * s"
    proof (cases "0 < s")
      case True
      from stockPath_needs_rows [OF fin(1) _ True] have N: "0 < N" by simp
      from stockPath_written [OF fin(1) N] show ?thesis by (simp add: A B C)
    next
      case False
      then have z: "s = 0" by simp
      from fin(1) have "st = \<lparr>rng_stock = gsl_rng_set G f1 (mxGetPr (prhs ! 0)),
         rng_vol = gsl_rng_set G f2 (mxGetPr (prhs ! 0) + 1), index = 0,
         stock_paths = [], vol_paths = [], xi_paths = []\<rparr>"
        unfolding z by (auto simp: stockPath_def split: option.splits)
      then show ?thesis by (simp add: A B C z)
    qed
    have first: "\<forall>c < s. elem STOCKPATHS 0 c = mxGetPr (prhs ! 4)
        \<and> elem VOLPATHS 0 c = mxGetPr (prhs ! 3) \<and> elem XIPATHS 0 c = mxGetPr (prhs ! 5)"
    proof (intro allI impI)
      fix c assume c: "c < s"
      then have pos: "0 < s" by simp
      from stockPath_needs_rows [OF fin(1) _ pos] have N: "0 < N" by simp
      note w = stockPath_written [OF fin(1) N]
      have ix: "c * N < index st" using w c N by simp
      from w have wo: "written_ok (mxGetPr (prhs ! 4)) (mxGetPr (prhs ! 3))
         (mxGetPr (prhs ! 5)) (mxGetPr (prhs ! 8)) (mxGetPr (prhs ! 2)) N st" by blast
      from written_ok_first [OF wo ix N]
      show "elem STOCKPATHS 0 c = mxGetPr (prhs ! 4)
        \<and> elem VOLPATHS 0 c = mxGetPr (prhs ! 3) \<and> elem XIPATHS 0 c = mxGetPr (prhs ! 5)"
        by (simp add: elem_def A B C)
    qed
    from shape first show ?thesis by blast
  qed (use run in simp_all)
  then show ?thesis unfolding N_def s_def .
qed

text \<open>
  Claim C6, as the programs have it: a successful invocation of the gateway returns
  three matrices of \<open>N\<close> rows and \<open>samples\<close> columns, one column per sample and one
  row per step, whose row 0 holds the initial values; \<open>N\<close> and \<open>samples\<close> are what
  the two calls of \<open>lround\<close> returned, the rounded quotient \<open>T / Dt\<close> and the rounded
  number of samples where these are defined. NumWrapper.m returns three matrices of
  \<open>samples\<close> rows and \<open>N\<close> columns whose column 1 holds the initial values.
\<close>

theorem output_matrices:
  "(mexFunction U G L f1 f2 nlhs prhs = (calls, Inr (STOCKPATHS, VOLPATHS, XIPATHS)) \<longrightarrow>
      (\<exists>N s. N = mwSize_of_long (lround_of U (double_div (mxGetPr (prhs ! 9)) (mxGetPr (prhs ! 2))))
         \<and> s = mwSize_of_long (lround_of U (Some (mxGetPr (prhs ! 1))))
         \<and> (\<forall>Nl. mxGetPr (prhs ! 2) \<noteq> 0
                \<and> lround (mxGetPr (prhs ! 9) / mxGetPr (prhs ! 2)) = Some Nl
              \<longrightarrow> N = mwSize_of_long Nl)
         \<and> (\<forall>sl. lround (mxGetPr (prhs ! 1)) = Some sl \<longrightarrow> s = mwSize_of_long sl)
         \<and> (\<forall>A \<in> {STOCKPATHS, VOLPATHS, XIPATHS}.
               m_rows A = N \<and> m_cols A = s \<and> length (m_data A) = N * s)
         \<and> (\<forall>c < s.
               elem STOCKPATHS 0 c = mxGetPr (prhs ! 4) \<and> elem VOLPATHS 0 c = mxGetPr (prhs ! 3)
               \<and> elem XIPATHS 0 c = mxGetPr (prhs ! 5))))
   \<and> (NumWrapper M L' randstate samples Dt sigma0 S0 xi0 mu p alpha T numMethod = Inr w
        \<and> size_arg samples = Inr m \<and> size_arg (NumWrapper_N T Dt) = Inr n \<and> 1 \<le> n \<longrightarrow>
      (\<forall>A \<in> {stockPaths w, volPaths w, xiPaths w}.
          m_rows A = m \<and> m_cols A = n \<and> length (m_data A) = m * n)
      \<and> (\<forall>i. 1 \<le> i \<and> i \<le> m \<longrightarrow>
          mget (stockPaths w) i 1 = S0 \<and> mget (volPaths w) i 1 = sigma0
          \<and> mget (xiPaths w) i 1 = xi0))"
proof (intro conjI impI)
  assume a: "NumWrapper M L' randstate samples Dt sigma0 S0 xi0 mu p alpha T numMethod = Inr w
        \<and> size_arg samples = Inr m \<and> size_arg (NumWrapper_N T Dt) = Inr n \<and> 1 \<le> n"
  then have k: "columns_kept m n S0 sigma0 xi0 w" by (blast intro: NumWrapper_columns)
  then show "\<forall>A \<in> {stockPaths w, volPaths w, xiPaths w}.
          m_rows A = m \<and> m_cols A = n \<and> length (m_data A) = m * n"
    by (simp add: columns_kept_def first_column_def)
  from k show "\<forall>i. 1 \<le> i \<and> i \<le> m \<longrightarrow>
          mget (stockPaths w) i 1 = S0 \<and> mget (volPaths w) i 1 = sigma0
          \<and> mget (xiPaths w) i 1 = xi0"
    by (auto simp: columns_kept_def intro: first_column_mget)
next
  let ?N = "mwSize_of_long (lround_of U (double_div (mxGetPr (prhs ! 9)) (mxGetPr (prhs ! 2))))"
  let ?s = "mwSize_of_long (lround_of U (Some (mxGetPr (prhs ! 1))))"
  assume "mexFunction U G L f1 f2 nlhs prhs = (calls, Inr (STOCKPATHS, VOLPATHS, XIPATHS))"
  then have sh: "(\<forall>A \<in> {STOCKPATHS, VOLPATHS, XIPATHS}.
               m_rows A = ?N \<and> m_cols A = ?s \<and> length (m_data A) = ?N * ?s)
         \<and> (\<forall>c < ?s.
               elem STOCKPATHS 0 c = mxGetPr (prhs ! 4) \<and> elem VOLPATHS 0 c = mxGetPr (prhs ! 3)
               \<and> elem XIPATHS 0 c = mxGetPr (prhs ! 5))"
    by (rule mexFunction_output_matrices)
  have rN: "\<forall>Nl. mxGetPr (prhs ! 2) \<noteq> 0
                \<and> lround (mxGetPr (prhs ! 9) / mxGetPr (prhs ! 2)) = Some Nl
              \<longrightarrow> ?N = mwSize_of_long Nl"
    by (simp add: lround_of_Some double_div_Some)
  have rs: "\<forall>sl. lround (mxGetPr (prhs ! 1)) = Some sl \<longrightarrow> ?s = mwSize_of_long sl"
    by (simp add: lround_of_Some)
  from sh rN rs
  show "\<exists>N s. N = ?N \<and> s = ?s
         \<and> (\<forall>Nl. mxGetPr (prhs ! 2) \<noteq> 0
                \<and> lround (mxGetPr (prhs ! 9) / mxGetPr (prhs ! 2)) = Some Nl
              \<longrightarrow> N = mwSize_of_long Nl)
         \<and> (\<forall>sl. lround (mxGetPr (prhs ! 1)) = Some sl \<longrightarrow> s = mwSize_of_long sl)
         \<and> (\<forall>A \<in> {STOCKPATHS, VOLPATHS, XIPATHS}.
               m_rows A = N \<and> m_cols A = s \<and> length (m_data A) = N * s)
         \<and> (\<forall>c < s.
               elem STOCKPATHS 0 c = mxGetPr (prhs ! 4) \<and> elem VOLPATHS 0 c = mxGetPr (prhs ! 3)
               \<and> elem XIPATHS 0 c = mxGetPr (prhs ! 5))"
    by (intro exI [of _ ?N] exI [of _ ?s] conjI refl) blast+
qed

theorem output_matrices_witness:
  "(\<exists>Nl sl. lround (mxGetPr (example_args 1 ''euler'' ! 9) / mxGetPr (example_args 1 ''euler'' ! 2)) = Some Nl
       \<and> lround (mxGetPr (example_args 1 ''euler'' ! 1)) = Some sl
       \<and> m_rows \<lparr>m_rows = 2, m_cols = 1, m_data = [50, 75]\<rparr> = mwSize_of_long Nl
       \<and> m_cols \<lparr>m_rows = 2, m_cols = 1, m_data = [50, 75]\<rparr> = mwSize_of_long sl
       \<and> elem \<lparr>m_rows = 2, m_cols = 1, m_data = [50, 75]\<rparr> 0 0
               = mxGetPr (example_args 1 ''euler'' ! 4))
   \<and> (\<exists>w. NumWrapper example_matlab example_numerical 42 1 1 0.2 50 0.2 0.1 1 1 2 ''Euler'' = Inr w
       \<and> m_rows (stockPaths w) = 1 \<and> m_cols (stockPaths w) = 2
       \<and> mget (stockPaths w) 1 1 = 50)"
proof -
  have d: "mxGetPr (example_args 1 ''euler'' ! 2) \<noteq> 0"
    and l: "lround (mxGetPr (example_args 1 ''euler'' ! 9) / mxGetPr (example_args 1 ''euler'' ! 2)) = Some 2"
      "lround (mxGetPr (example_args 1 ''euler'' ! 1)) = Some 1"
    by (simp_all add: example_args_def mxGetPr_def lround_def Let_def)
  from output_matrices [THEN conjunct1, rule_format, OF example_euler]
  obtain N s where
    rN: "\<forall>Nl. mxGetPr (example_args 1 ''euler'' ! 2) \<noteq> 0
            \<and> lround (mxGetPr (example_args 1 ''euler'' ! 9) / mxGetPr (example_args 1 ''euler'' ! 2))
                = Some Nl
          \<longrightarrow> N = mwSize_of_long Nl"
    and rs: "\<forall>sl. lround (mxGetPr (example_args 1 ''euler'' ! 1)) = Some sl \<longrightarrow> s = mwSize_of_long sl"
    and sh: "\<forall>A \<in> {\<lparr>m_rows = 2, m_cols = 1, m_data = [50, 75]\<rparr>,
                  \<lparr>m_rows = 2, m_cols = 1, m_data = [0.2, 0.6]\<rparr>,
                  \<lparr>m_rows = 2, m_cols = 1, m_data = [0.2, 0.2]\<rparr>}.
             m_rows A = N \<and> m_cols A = s \<and> length (m_data A) = N * s"
    and fi: "\<forall>c < s.
             elem \<lparr>m_rows = 2, m_cols = 1, m_data = [50, 75]\<rparr> 0 c
               = mxGetPr (example_args 1 ''euler'' ! 4)
             \<and> elem \<lparr>m_rows = 2, m_cols = 1, m_data = [0.2, 0.6]\<rparr> 0 c
               = mxGetPr (example_args 1 ''euler'' ! 3)
             \<and> elem \<lparr>m_rows = 2, m_cols = 1, m_data = [0.2, 0.2]\<rparr> 0 c
               = mxGetPr (example_args 1 ''euler'' ! 5)"
    by (elim exE conjE)
  from rN d l(1) have N: "N = mwSize_of_long 2" by blast
  from rs l(2) have s: "s = mwSize_of_long 1" by blast
  from sh have one: "s = 1" by simp
  with fi have "elem \<lparr>m_rows = 2, m_cols = 1, m_data = [50, 75]\<rparr> 0 0
               = mxGetPr (example_args 1 ''euler'' ! 4)" by simp
  with l sh N s have first: "\<exists>Nl sl. lround (mxGetPr (example_args 1 ''euler'' ! 9) / mxGetPr (example_args 1 ''euler'' ! 2)) = Some Nl
       \<and> lround (mxGetPr (example_args 1 ''euler'' ! 1)) = Some sl
       \<and> m_rows \<lparr>m_rows = 2, m_cols = 1, m_data = [50, 75]\<rparr> = mwSize_of_long Nl
       \<and> m_cols \<lparr>m_rows = 2, m_cols = 1, m_data = [50, 75]\<rparr> = mwSize_of_long sl
       \<and> elem \<lparr>m_rows = 2, m_cols = 1, m_data = [50, 75]\<rparr> 0 0
               = mxGetPr (example_args 1 ''euler'' ! 4)"
    by simp
  from example_NumWrapper obtain w where
    w: "NumWrapper example_matlab example_numerical 42 1 1 0.2 50 0.2 0.1 1 1 2 ''Euler'' = Inr w"
    by (elim exE)
  have n: "(1::nat) \<le> 2" by simp
  note nw = output_matrices [THEN conjunct2, rule_format,
      OF conjI [OF w conjI [OF example_sizes(1) conjI [OF example_sizes(2) n]]]]
  from nw have "m_rows (stockPaths w) = 1 \<and> m_cols (stockPaths w) = 2
       \<and> mget (stockPaths w) 1 1 = 50" by simp
  with w first show ?thesis by (intro conjI exI [of _ w]) simp_all
qed

text \<open>
  Against claim C6 as stated: one sample of two steps gives matrices of two rows and
  one column, not of one row and two columns.
\<close>

theorem output_matrices_transposed:
  "\<exists>calls A B C.
     mexFunction example_lround example_gsl example_numerical 0 0 3 (example_args 1 ''euler'')
       = (calls, Inr (A, B, C))
     \<and> lround (mxGetPr (example_args 1 ''euler'' ! 1)) = Some 1
     \<and> lround (mxGetPr (example_args 1 ''euler'' ! 9) / mxGetPr (example_args 1 ''euler'' ! 2)) = Some 2
     \<and> (m_rows A, m_cols A) = (2, 1) \<and> (m_rows A, m_cols A) \<noteq> (1, 2)"
  by (simp add: example_euler) (simp add: example_args_def mxGetPr_def lround_def Let_def)

text \<open>
  Claim C9: the result of an invocation is a function of its arguments alone. Seeding
  a generator fixes its state whatever it was before, so the two generators the run
  is handed do not matter, and neither does any other state.
\<close>

theorem simulate_deterministic:
  assumes "\<And>g g' s. gsl_rng_set G g s = gsl_rng_set G g' s"
  shows "mexFunction U G L f1 f2 nlhs prhs = mexFunction U G L f1' f2' nlhs prhs"
proof -
  have a: "gsl_rng_set G f1 = gsl_rng_set G f1'" using assms by (intro ext)
  have b: "gsl_rng_set G f2 = gsl_rng_set G f2'" using assms by (intro ext)
  show ?thesis by (simp only: mexFunction_def a b)
qed

theorem simulate_deterministic_witness:
  "mexFunction example_lround example_gsl example_numerical 0 0 3 (example_args 1 ''euler'')
   = mexFunction example_lround example_gsl example_numerical 5 7 3 (example_args 1 ''euler'')"
  by (rule simulate_deterministic) (simp add: example_gsl_def)

section \<open>The initial values\<close>

lemma stockPath_initial_entries:
  assumes run: "stockPath G L g1 g2 samples Dt sigma_0 S_0 xi_0 mu p alpha N m b1 b2 b3 = Inr fin"
    and len: "length b1 = N * samples"
    and s: "s < samples"
  shows "stock_paths fin ! (s * N) = S_0 \<and> vol_paths fin ! (s * N) = sigma_0
       \<and> xi_paths fin ! (s * N) = xi_0
       \<and> (\<forall>i j. (s < i \<or> (s = i \<and> 0 < j)) \<and> i < samples \<and> j \<le> N \<longrightarrow>
            (\<exists>st. stockPath_upto i j G L g1 g2 Dt sigma_0 S_0 xi_0 mu p alpha N m b1 b2 b3 = Inr st
                \<and> stock_paths st ! (s * N) = S_0 \<and> vol_paths st ! (s * N) = sigma_0
                \<and> xi_paths st ! (s * N) = xi_0))"
proof -
  from s have "0 < samples" by simp
  from stockPath_needs_rows [OF run len this] have N: "0 < N" .
  from stockPath_written [OF run N] have ix: "index fin = samples * N"
    and wo: "written_ok S_0 sigma_0 xi_0 alpha Dt N fin" by blast+
  have "s * N < index fin" using ix s N by simp
  note fin = written_ok_first [OF wo this N]
  have "\<exists>st. stockPath_upto i j G L g1 g2 Dt sigma_0 S_0 xi_0 mu p alpha N m b1 b2 b3 = Inr st
                \<and> stock_paths st ! (s * N) = S_0 \<and> vol_paths st ! (s * N) = sigma_0
                \<and> xi_paths st ! (s * N) = xi_0"
    if a: "s < i \<or> (s = i \<and> 0 < j)" "i < samples" "j \<le> N" for i j
  proof -
    from stockPath_upto_written [OF run N a(2,3)] obtain st where
      st: "stockPath_upto i j G L g1 g2 Dt sigma_0 S_0 xi_0 mu p alpha N m b1 b2 b3 = Inr st"
      and ist: "index st = i * N + j" and wst: "written_ok S_0 sigma_0 xi_0 alpha Dt N st"
      by blast
    have "s * N < index st"
    proof (cases "s < i")
      case True
      then have "Suc s \<le> i" by simp
      then have "Suc s * N \<le> i * N" by (rule mult_le_mono1)
      then show ?thesis using ist N by simp
    next
      case False
      with a(1) ist show ?thesis by simp
    qed
    from written_ok_first [OF wst this N] st show ?thesis by blast
  qed
  with fin show ?thesis by blast
qed

text \<open>
  Claim C8: in a completed run of \<open>stockPath\<close> on buffers of \<open>N * samples\<close>
  entries, the first entry of every path \<open>s\<close> holds \<open>S_0\<close>, \<open>sigma_0\<close> and
  \<open>xi_0\<close>, and so it does at every point of the run from the first store of that
  path on. In NumWrapper.m column 1 of the three matrices holds the initial values in
  every row when the function returns, and the loop of no sample changes it.
\<close>

theorem initial_entries_kept:
  "(stockPath G L g1 g2 samples Dt sigma_0 S_0 xi_0 mu p alpha N m b1 b2 b3 = Inr fin
      \<and> length b1 = N * samples \<and> s < samples \<longrightarrow>
      stock_paths fin ! (s * N) = S_0 \<and> vol_paths fin ! (s * N) = sigma_0
      \<and> xi_paths fin ! (s * N) = xi_0
      \<and> (\<forall>i j. (s < i \<or> (s = i \<and> 0 < j)) \<and> i < samples \<and> j \<le> N \<longrightarrow>
            (\<exists>st. stockPath_upto i j G L g1 g2 Dt sigma_0 S_0 xi_0 mu p alpha N m b1 b2 b3 = Inr st
                \<and> stock_paths st ! (s * N) = S_0 \<and> vol_paths st ! (s * N) = sigma_0
                \<and> xi_paths st ! (s * N) = xi_0)))
   \<and> (NumWrapper M L' randstate samples' Dt' sigma0 S0 xi0 mu' p' alpha' T numMethod = Inr w
        \<and> size_arg samples' = Inr rows \<and> size_arg (NumWrapper_N T Dt') = Inr cols \<and> 1 \<le> cols
        \<and> 1 \<le> r \<and> r \<le> rows \<longrightarrow>
      mget (stockPaths w) r 1 = S0 \<and> mget (volPaths w) r 1 = sigma0 \<and> mget (xiPaths w) r 1 = xi0)
   \<and> (wrapper_sample M handles Dt' mu' p' alpha' cols k st = Inr st'
        \<and> columns_kept rows cols S0 sigma0 xi0 st \<longrightarrow>
      columns_kept rows cols S0 sigma0 xi0 st')"
proof (intro conjI impI)
  assume "NumWrapper M L' randstate samples' Dt' sigma0 S0 xi0 mu' p' alpha' T numMethod = Inr w
        \<and> size_arg samples' = Inr rows \<and> size_arg (NumWrapper_N T Dt') = Inr cols \<and> 1 \<le> cols
        \<and> 1 \<le> r \<and> r \<le> rows"
  then have k: "columns_kept rows cols S0 sigma0 xi0 w" and r: "Suc 0 \<le> r" "r \<le> rows"
    by (auto intro: NumWrapper_columns)
  from k r show "mget (stockPaths w) r 1 = S0" "mget (volPaths w) r 1 = sigma0"
    "mget (xiPaths w) r 1 = xi0"
    by (auto simp: columns_kept_def dest: first_column_mget)
next
  assume "wrapper_sample M handles Dt' mu' p' alpha' cols k st = Inr st'
        \<and> columns_kept rows cols S0 sigma0 xi0 st"
  then show "columns_kept rows cols S0 sigma0 xi0 st'"
    by (blast intro: wrapper_sample_kept)
next
  assume a: "stockPath G L g1 g2 samples Dt sigma_0 S_0 xi_0 mu p alpha N m b1 b2 b3 = Inr fin
      \<and> length b1 = N * samples \<and> s < samples"
  then have run: "stockPath G L g1 g2 samples Dt sigma_0 S_0 xi_0 mu p alpha N m b1 b2 b3 = Inr fin"
    and len: "length b1 = N * samples" and s: "s < samples" by blast+
  note e = stockPath_initial_entries [OF run len s]
  from e show "stock_paths fin ! (s * N) = S_0" by (rule conjunct1)
  from e show "vol_paths fin ! (s * N) = sigma_0" by (rule conjunct2 [THEN conjunct1])
  from e show "xi_paths fin ! (s * N) = xi_0" by (rule conjunct2 [THEN conjunct2, THEN conjunct1])
  from e show "\<forall>i j. (s < i \<or> (s = i \<and> 0 < j)) \<and> i < samples \<and> j \<le> N \<longrightarrow>
            (\<exists>st. stockPath_upto i j G L g1 g2 Dt sigma_0 S_0 xi_0 mu p alpha N m b1 b2 b3 = Inr st
                \<and> stock_paths st ! (s * N) = S_0 \<and> vol_paths st ! (s * N) = sigma_0
                \<and> xi_paths st ! (s * N) = xi_0)"
    by (rule conjunct2 [THEN conjunct2, THEN conjunct2])
qed

theorem initial_entries_kept_witness:
  "stock_paths \<lparr>rng_stock = 44::nat, rng_vol = 45, index = 4, stock_paths = [50, 75, 50, 75],
          vol_paths = [0.2, 0.6, 0.2, 0.6], xi_paths = [0.2, 0.2, 0.2, 0.2]\<rparr> ! (0 * 2) = 50
   \<and> (\<exists>st. stockPath_upto 1 1 example_gsl example_numerical 42 43 1 0.2 50 0.2 0.1 1 1 2 EULER
                 (replicate 4 0) (replicate 4 0) (replicate 4 0) = Inr st
            \<and> stock_paths st ! (0 * 2) = 50 \<and> vol_paths st ! (0 * 2) = 0.2
            \<and> xi_paths st ! (0 * 2) = 0.2)
   \<and> (\<exists>w. NumWrapper example_matlab example_numerical 42 1 1 0.2 50 0.2 0.1 1 1 2 ''Euler'' = Inr w
       \<and> mget (stockPaths w) 1 1 = 50 \<and> mget (volPaths w) 1 1 = 0.2 \<and> mget (xiPaths w) 1 1 = 0.2)
   \<and> (\<exists>st'. wrapper_sample example_matlab (Some (spec_euler_stock, spec_euler_vol)) 1 0.1 1 1 2 1
            \<lparr>w_rng = 0, stockPaths = assign_col1 (zeros 1 2) 50,
             volPaths = assign_col1 (zeros 1 2) 0.2, xiPaths = assign_col1 (zeros 1 2) 0.2\<rparr> = Inr st'
       \<and> columns_kept 1 2 50 0.2 0.2 st')"
proof -
  have len: "length (replicate 4 (0::real)) = 2 * 2" and s: "(0::nat) < 2" by simp_all
  note a = initial_entries_kept [THEN conjunct1, rule_format,
      OF conjI [OF example_stockPath conjI [OF len s]]]
  from a have first: "stock_paths \<lparr>rng_stock = 44::nat, rng_vol = 45, index = 4,
          stock_paths = [50, 75, 50, 75], vol_paths = [0.2, 0.6, 0.2, 0.6],
          xi_paths = [0.2, 0.2, 0.2, 0.2]\<rparr> ! (0 * 2) = 50"
    by (rule conjunct1)
  from a have pts: "\<forall>i j. (0 < i \<or> (0 = i \<and> 0 < j)) \<and> i < 2 \<and> j \<le> 2 \<longrightarrow>
        (\<exists>st. stockPath_upto i j example_gsl example_numerical 42 43 1 0.2 50 0.2 0.1 1 1 2 EULER
                 (replicate 4 0) (replicate 4 0) (replicate 4 0) = Inr st
            \<and> stock_paths st ! (0 * 2) = 50 \<and> vol_paths st ! (0 * 2) = 0.2
            \<and> xi_paths st ! (0 * 2) = 0.2)"
    by (rule conjunct2 [THEN conjunct2, THEN conjunct2])
  have "((0::nat) < 1 \<or> ((0::nat) = 1 \<and> (0::nat) < 1)) \<and> (1::nat) < 2 \<and> (1::nat) \<le> 2" by simp
  then have second: "\<exists>st. stockPath_upto 1 1 example_gsl example_numerical 42 43 1 0.2 50 0.2 0.1 1 1 2
        EULER (replicate 4 0) (replicate 4 0) (replicate 4 0) = Inr st
            \<and> stock_paths st ! (0 * 2) = 50 \<and> vol_paths st ! (0 * 2) = 0.2
            \<and> xi_paths st ! (0 * 2) = 0.2"
    by (rule pts [THEN spec, THEN spec, THEN mp])
  from example_NumWrapper obtain w where
    w: "NumWrapper example_matlab example_numerical 42 1 1 0.2 50 0.2 0.1 1 1 2 ''Euler'' = Inr w"
    by (elim exE)
  have n: "(1::nat) \<le> 2" "(1::nat) \<le> 1" by simp_all
  note b = initial_entries_kept [THEN conjunct2, THEN conjunct1, rule_format,
      OF conjI [OF w conjI [OF example_sizes(1) conjI [OF example_sizes(2)
        conjI [OF n(1) conjI [OF n(2) n(2)]]]]]]
  from w b have third: "\<exists>w. NumWrapper example_matlab example_numerical 42 1 1 0.2 50 0.2 0.1 1 1 2 ''Euler'' = Inr w
       \<and> mget (stockPaths w) 1 1 = 50 \<and> mget (volPaths w) 1 1 = 0.2 \<and> mget (xiPaths w) 1 1 = 0.2"
    by (intro exI [of _ w] conjI) simp_all
  let ?st = "\<lparr>w_rng = 0::nat, stockPaths = assign_col1 (zeros 1 2) 50,
             volPaths = assign_col1 (zeros 1 2) 0.2, xiPaths = assign_col1 (zeros 1 2) 0.2\<rparr>"
  have k: "columns_kept 1 2 50 0.2 0.2 ?st"
    by (simp add: columns_kept_def first_column_init)
  have "\<exists>st'. wrapper_sample example_matlab (Some (spec_euler_stock, spec_euler_vol)) 1 0.1 1 1 2 1 ?st
      = Inr st'"
    by (simp add: wrapper_sample_def wrapper_step_def example_matlab_def Let_def upt_conv_Cons)
  then obtain st' where
    st': "wrapper_sample example_matlab (Some (spec_euler_stock, spec_euler_vol)) 1 0.1 1 1 2 1 ?st
      = Inr st'"
    by (elim exE)
  note c = initial_entries_kept [THEN conjunct2, THEN conjunct2, rule_format, OF conjI [OF st' k]]
  from st' c have fourth: "\<exists>st'. wrapper_sample example_matlab (Some (spec_euler_stock, spec_euler_vol))
        1 0.1 1 1 2 1 ?st = Inr st' \<and> columns_kept 1 2 50 0.2 0.2 st'"
    by (intro exI [of _ st'] conjI)
  from first second third fourth show ?thesis by (intro conjI)
qed

section \<open>Milstein against Euler\<close>






section \<open>The vectors of the script\<close>

lemma vget_vset_same: "Suc 0 \<le> i \<Longrightarrow> vget (vset v i x) i = x"
  by (auto simp: vget_def vset_def nth_append)

lemma vget_vset_prev: "in_range v (i - Suc 0) \<Longrightarrow> vget (vset v i x) (i - Suc 0) = vget v (i - Suc 0)"
  by (auto simp: vget_def vset_def in_range_def nth_append)

lemma fine_step_xi:
  assumes "fine_step mu p alfa dtex r r1 i st = Inr st'"
  shows "vget (xi st') i = vget (xi st) (i - 1)
           + (1 / alfa) * (vget (sig st) (i - 1) - vget (xi st) (i - 1)) * dtex"
proof -
  from assms have r: "in_range (sig st) (i - 1)" "in_range (xi st) (i - 1)"
    by (auto simp: fine_step_def split: if_splits)
  then have "1 \<le> i" by (auto simp: in_range_def)
  with assms r show ?thesis
    by (auto simp: fine_step_def Let_def vget_vset_same vget_vset_prev split: if_splits)
qed

lemma coarse_step_xi:
  assumes "coarse_step mu p alfa dtex dt k r r1 i st = Inr st'"
  shows "vget (xi st') i = vget (xi st) (i - 1)
           + (1 / alfa) * (vget (sig st) (i - 1) - vget (xi st) (i - 1)) * dt"
proof -
  from assms have r: "in_range (sig st) (i - 1)" "in_range (xi st) (i - 1)"
    by (auto simp: coarse_step_def split: if_splits)
  then have "1 \<le> i" by (auto simp: in_range_def)
  with assms r show ?thesis
    by (auto simp: coarse_step_def Let_def vget_vset_same vget_vset_prev split: if_splits)
qed

lemma sqrt_dtex: "sqrt (1 / 10000) = 1 / 100"
  by (rule real_sqrt_unique) (simp_all add: power2_eq_square)





lemma index_list_aux: "map (\<lambda>z. (d + k) - (k - z)) [1..<Suc k] = [d + 1..<d + k + 1]"
proof (rule nth_equalityI)
  show "length (map (\<lambda>z. (d + k) - (k - z)) [1..<Suc k]) = length [d + 1..<d + k + 1]"
    by (simp del: upt_Suc)
next
  fix n assume "n < length (map (\<lambda>z. (d + k) - (k - z)) [1..<Suc k])"
  then have "n < k" by (simp del: upt_Suc)
  then show "map (\<lambda>z. (d + k) - (k - z)) [1..<Suc k] ! n = [d + 1..<d + k + 1] ! n"
    by (simp del: upt_Suc)
qed

lemma index_list:
  assumes "1 \<le> i"
  shows "map (\<lambda>z. k * i - (k - z)) [1..<Suc k] = [k * i - k + 1..<k * i + 1]"
proof -
  define d where "d = k * i - k"
  have "k \<le> k * i" using assms by simp
  then have e: "k * i = d + k" by (simp add: d_def)
  show ?thesis unfolding e using index_list_aux [of d k] by simp
qed



lemma draws_in_range_iff:
  assumes "1 \<le> i" "1 \<le> k"
  shows "draws_in_range r k i \<longleftrightarrow> k * i \<le> length r"
proof -
  have ki: "k \<le> k * i" using assms by simp
  have "draws_in_range r k i \<longleftrightarrow> (\<forall>m \<in> set (map (\<lambda>z. k * i - (k - z)) [1..<Suc k]). in_range r m)"
    by (simp add: draws_in_range_def list_all_iff)
  also have "\<dots> \<longleftrightarrow> (\<forall>m \<in> {k * i - k + 1..k * i}. in_range r m)"
    by (simp only: index_list [OF assms(1)]) auto
  also have "\<dots> \<longleftrightarrow> k * i \<le> length r"
  proof
    assume a: "\<forall>m \<in> {k * i - k + 1..k * i}. in_range r m"
    have "k * i - k + 1 \<le> k * i" using assms(2) ki by arith
    then have "k * i \<in> {k * i - k + 1..k * i}" by simp
    with a show "k * i \<le> length r" by (auto simp: in_range_def)
  next
    assume "k * i \<le> length r"
    then show "\<forall>m \<in> {k * i - k + 1..k * i}. in_range r m" by (auto simp: in_range_def)
  qed
  finally show ?thesis .
qed

section \<open>The loops of the script\<close>








section \<open>The coarse increments as sums of groups of fine increments\<close>







section \<open>One repetition of the script\<close>











lemma small_coarse_step:
  "\<exists>c. coarse_step 0.1 1 1 0.0001 0.0002 2 [1, 2, 3, 4] [1, 2, 3, 4] 2 example_small = Inr c"
  by (simp add: coarse_step_def draws_in_range_iff in_range_def example_small_def Let_def)

section \<open>The horizon of the coarse runs\<close>













section \<open>Which draws a coarse step uses\<close>



section \<open>The relaxation variable\<close>

text \<open>
  Claim C1, as the programs have it: \<open>stockPath\<close> advances \<open>xi\<close> by the formula
  of section 4.3 at every step of every path, whatever the method; the script
  euler_weak.m advances it by the explicit Euler step
  \<open>xi + (1 / alfa) * (sig - xi) * dt\<close> in the reference loop and in the coarse loops.
\<close>

theorem xi_advance:
  "(stockPath G L g1 g2 samples Dt sigma_0 S_0 xi_0 mu p alpha N m b1 b2 b3 = Inr fin
      \<and> 0 < N \<and> s < samples \<and> 0 < j \<and> j < N
    \<longrightarrow> xi_paths fin ! (s * N + j)
        = rk4_step (vol_paths fin ! (s * N + j - 1)) (xi_paths fin ! (s * N + j - 1)) Dt alpha)
   \<and> (fine_step mu' p' alfa dtex r r1 i st = Inr st'
    \<longrightarrow> vget (xi st') i = vget (xi st) (i - 1)
           + (1 / alfa) * (vget (sig st) (i - 1) - vget (xi st) (i - 1)) * dtex)
   \<and> (coarse_step mu' p' alfa dtex dt k r r1 i st = Inr st''
    \<longrightarrow> vget (xi st'') i = vget (xi st) (i - 1)
           + (1 / alfa) * (vget (sig st) (i - 1) - vget (xi st) (i - 1)) * dt)"
proof (intro conjI impI)
  assume a: "stockPath G L g1 g2 samples Dt sigma_0 S_0 xi_0 mu p alpha N m b1 b2 b3 = Inr fin
      \<and> 0 < N \<and> s < samples \<and> 0 < j \<and> j < N"
  then have run: "stockPath G L g1 g2 samples Dt sigma_0 S_0 xi_0 mu p alpha N m b1 b2 b3 = Inr fin"
    and N: "0 < N" and s: "s < samples" and j: "0 < j" "j < N" by blast+
  from stockPath_written [OF run N] have ix: "index fin = samples * N"
    and wo: "written_ok S_0 sigma_0 xi_0 alpha Dt N fin" by blast+
  have "Suc s * N \<le> samples * N" using s by (intro mult_le_mono1) simp
  then have "s * N + j < index fin" using ix j by simp
  from written_ok_later [OF wo this j] show "xi_paths fin ! (s * N + j)
        = rk4_step (vol_paths fin ! (s * N + j - 1)) (xi_paths fin ! (s * N + j - 1)) Dt alpha"
    by (simp add: xi_next_rk4)
qed (rule fine_step_xi coarse_step_xi, assumption)+

theorem xi_advance_witness:
  "xi_paths \<lparr>rng_stock = 44::nat, rng_vol = 45, index = 4, stock_paths = [50, 75, 50, 75],
          vol_paths = [0.2, 0.6, 0.2, 0.6], xi_paths = [0.2, 0.2, 0.2, 0.2]\<rparr> ! (1 * 2 + 1)
     = rk4_step (vol_paths \<lparr>rng_stock = 44::nat, rng_vol = 45, index = 4,
          stock_paths = [50, 75, 50, 75], vol_paths = [0.2, 0.6, 0.2, 0.6],
          xi_paths = [0.2, 0.2, 0.2, 0.2]\<rparr> ! (1 * 2 + 1 - 1))
         (xi_paths \<lparr>rng_stock = 44::nat, rng_vol = 45, index = 4,
          stock_paths = [50, 75, 50, 75], vol_paths = [0.2, 0.6, 0.2, 0.6],
          xi_paths = [0.2, 0.2, 0.2, 0.2]\<rparr> ! (1 * 2 + 1 - 1)) 1 1
   \<and> (\<exists>st'. fine_step 0.1 1 1 0.0001 [1, 2, 3, 4] [1, 2, 3, 4] 2 example_small = Inr st'
        \<and> vget (xi st') 2 = vget (xi example_small) (2 - 1)
           + (1 / 1) * (vget (sig example_small) (2 - 1) - vget (xi example_small) (2 - 1)) * 0.0001)
   \<and> (\<exists>st''. coarse_step 0.1 1 1 0.0001 0.0002 2 [1, 2, 3, 4] [1, 2, 3, 4] 2 example_small = Inr st''
        \<and> vget (xi st'') 2 = vget (xi example_small) (2 - 1)
           + (1 / 1) * (vget (sig example_small) (2 - 1) - vget (xi example_small) (2 - 1)) * 0.0002)"
proof -
  have two: "(2::nat) \<le> 2" "(1::nat) \<le> 2" "2 * 2 \<le> length [1, 2, 3, 4 :: real]" by simp_all
  from small_coarse_step
  obtain c where c: "coarse_step 0.1 1 1 0.0001 0.0002 2 [1, 2, 3, 4] [1, 2, 3, 4] 2 example_small = Inr c"
    by (elim exE)
  have "\<exists>f. fine_step 0.1 1 1 0.0001 [1, 2, 3, 4] [1, 2, 3, 4] 2 example_small = Inr f"
    by (simp add: fine_step_def in_range_def example_small_def Let_def)
  then obtain f where f: "fine_step 0.1 1 1 0.0001 [1, 2, 3, 4] [1, 2, 3, 4] 2 example_small = Inr f"
    by (elim exE)
  have "(stockPath example_gsl example_numerical 42 43 2 1 0.2 50 0.2 0.1 1 1 2 EULER
           (replicate 4 0) (replicate 4 0) (replicate 4 0)
         = Inr \<lparr>rng_stock = 44::nat, rng_vol = 45, index = 4, stock_paths = [50, 75, 50, 75],
              vol_paths = [0.2, 0.6, 0.2, 0.6], xi_paths = [0.2, 0.2, 0.2, 0.2]\<rparr>
        \<and> (0::nat) < 2 \<and> (1::nat) < 2 \<and> (0::nat) < 1 \<and> (1::nat) < 2
      \<longrightarrow> xi_paths \<lparr>rng_stock = 44::nat, rng_vol = 45, index = 4, stock_paths = [50, 75, 50, 75],
              vol_paths = [0.2, 0.6, 0.2, 0.6], xi_paths = [0.2, 0.2, 0.2, 0.2]\<rparr> ! (1 * 2 + 1)
          = rk4_step (vol_paths \<lparr>rng_stock = 44::nat, rng_vol = 45, index = 4,
                stock_paths = [50, 75, 50, 75], vol_paths = [0.2, 0.6, 0.2, 0.6],
                xi_paths = [0.2, 0.2, 0.2, 0.2]\<rparr> ! (1 * 2 + 1 - 1))
              (xi_paths \<lparr>rng_stock = 44::nat, rng_vol = 45, index = 4,
                stock_paths = [50, 75, 50, 75], vol_paths = [0.2, 0.6, 0.2, 0.6],
                xi_paths = [0.2, 0.2, 0.2, 0.2]\<rparr> ! (1 * 2 + 1 - 1)) 1 1)
   \<and> (fine_step 0.1 1 1 0.0001 [1, 2, 3, 4] [1, 2, 3, 4] 2 example_small = Inr f
      \<longrightarrow> vget (xi f) 2 = vget (xi example_small) (2 - 1)
           + (1 / 1) * (vget (sig example_small) (2 - 1) - vget (xi example_small) (2 - 1)) * 0.0001)
   \<and> (coarse_step 0.1 1 1 0.0001 0.0002 2 [1, 2, 3, 4] [1, 2, 3, 4] 2 example_small = Inr c
      \<longrightarrow> vget (xi c) 2 = vget (xi example_small) (2 - 1)
           + (1 / 1) * (vget (sig example_small) (2 - 1) - vget (xi example_small) (2 - 1)) * 0.0002)"
    (is "?A \<and> ?B \<and> ?C")
    by (rule xi_advance)
  then have A: ?A and B: ?B and C: ?C
    by (rule conjunct1, (rule conjunct2 [THEN conjunct1]), (rule conjunct2 [THEN conjunct2]))
  have n: "(0::nat) < 2" "(1::nat) < 2" "(0::nat) < 1" by simp_all
  note a = A [rule_format, OF conjI [OF example_stockPath conjI [OF n(1) conjI [OF n(2) conjI [OF n(3) n(2)]]]]]
  note b = B [rule_format, OF f]
  note c3 = C [rule_format, OF c]
  show ?thesis
    by (intro conjI, rule a, (rule exI [of _ f], rule conjI [OF f b]),
        (rule exI [of _ c], rule conjI [OF c c3]))
qed

text \<open>
  Against claim C1 as stated: in the script's reference loop, started from the state of
  the first repetition with all draws 1, the third relaxation value is not the one the
  formula of section 4.3 gives from the second.
\<close>

theorem harness_xi_not_rk4:
  "\<exists>st. for_loop [2..<4] (fine_step 0.1 1 1 0.0001 (replicate 32000 1) (replicate 32000 1)) example_ew
          = Inr st
      \<and> vget (xi st) 3 = 0.2000002
      \<and> rk4_step (vget (sig st) 2) (vget (xi st) 2) 0.0001 1 \<noteq> 0.2000002"
  by (simp add: upt_conv_Cons fine_step_def example_ew_def in_range_def vget_def vset_def Let_def
      sqrt_dtex rk4_step_def nth_list_update)

end
